theory Spec2Isabelle
  imports
    Complex_Main
    "HOL-Library.Option_ord"
    "HOL-Library.Char_ord"
    "HOL-Library.List_Lexorder"
    "HOL-Library.Log_Nat"
    "HOL-Library.Multiset"
begin

text \<open>
  The reconciliation core of the truck deal finder (\<open>deal_finder.py\<close>):
  \<open>upsert_listing\<close>, which merges one observed listing into the SQLite tables
  \<open>listings\<close> and \<open>price_alerts\<close>, the loop of \<open>run_full_scrape\<close> that applies
  it to a batch, and the read side, \<open>apply_filters\<close>, \<open>get_listings\<close> and
  \<open>get_price_drops\<close>. The database is an explicit state, the clocks are arguments,
  and exceptions are values.
\<close>

section \<open>Python and SQLite values\<close>

text \<open>
  The exceptions that the modelled functions can raise: \<open>listing["k"]\<close> on a dict
  without the key \<open>k\<close> (\<open>KeyError\<close>), an \<open>INSERT\<close> that violates a
  \<open>NOT NULL\<close> constraint (\<open>sqlite3.IntegrityError\<close>), and \<open>OverflowError\<close>, raised
  by \<open>cursor.execute\<close> for an integer parameter outside signed 64 bits and by date
  arithmetic that leaves the range of \<open>datetime\<close>.
\<close>

datatype error = KeyError string | IntegrityError | OverflowError

text \<open>
  A dict entry read with \<open>listing["k"]\<close>: the key may be absent, present with the
  value \<open>None\<close>, or present with a value. Entries read with \<open>listing.get("k")\<close>
  are options, since \<open>get\<close> returns \<open>None\<close> for an absent key as well.
\<close>

datatype 'a entry = Absent | Null | Val 'a

text \<open>Python truth value of an optional integer: \<open>None\<close> and \<open>0\<close> are false.\<close>

definition truthy :: "int option \<Rightarrow> bool" where
  "truthy v = (case v of None \<Rightarrow> False | Some n \<Rightarrow> n \<noteq> 0)"

text \<open>Truth value of an optional number given as a rational (\<open>min_discount_percent\<close>).\<close>

definition truthy_num :: "rat option \<Rightarrow> bool" where
  "truthy_num v = (case v of None \<Rightarrow> False | Some q \<Rightarrow> q \<noteq> 0)"

subsection \<open>Strings\<close>

text \<open>
  Strings are byte strings; \<open>lower\<close> is \<open>str.lower()\<close> and SQLite's \<open>LOWER\<close> on
  ASCII text (SQLite folds ASCII letters only; Python also folds letters beyond ASCII,
  which these byte strings do not represent).
\<close>

definition lower_char :: "char \<Rightarrow> char" where
  "lower_char c =
     (case map_of (zip ''ABCDEFGHIJKLMNOPQRSTUVWXYZ'' ''abcdefghijklmnopqrstuvwxyz'') c of
        None \<Rightarrow> c | Some d \<Rightarrow> d)"

definition lower :: "string \<Rightarrow> string" where
  "lower s = map lower_char s"

text \<open>\<open>t in s\<close> on strings: \<open>t\<close> occurs in \<open>s\<close> as a contiguous substring.\<close>

fun py_in :: "string \<Rightarrow> string \<Rightarrow> bool" where
  "py_in t [] = (t = [])"
| "py_in t (c # cs) = (take (length t) (c # cs) = t \<or> py_in t cs)"

subsection \<open>Floating point\<close>

text \<open>
  A Python float is modelled by the rational it denotes. \<open>fl_round\<close> rounds a rational
  to the nearest number with a 53-bit significand, ties to even, which is what
  \<open>int / int\<close> (correctly rounded in CPython) and float multiplication return. The
  exponent range of a double is not modelled: for operands that are SQLite integers
  (below \<open>2^63\<close> in magnitude) the quotient and the product computed by
  \<open>apply_filters\<close> stay inside the normal range.
\<close>

definition pow2 :: "int \<Rightarrow> rat" where
  "pow2 k = (if 0 \<le> k then 2 ^ nat k else 1 / 2 ^ nat (- k))"

definition round_half_even :: "rat \<Rightarrow> int" where
  "round_half_even m =
     (let fl = \<lfloor>m\<rfloor>; fr = m - of_int fl in
      if fr < 1 / 2 then fl
      else if 1 / 2 < fr then fl + 1
      else if even fl then fl else fl + 1)"

definition floor_log2 :: "rat \<Rightarrow> int" where
  "floor_log2 a =
     (let (p, q) = quotient_of a; d = bitlen p - bitlen q in
      if pow2 d \<le> a then d else d - 1)"

definition fl_round :: "rat \<Rightarrow> rat" where
  "fl_round x =
     (if x = 0 then 0
      else let a = \<bar>x\<bar>; e = floor_log2 a - 52;
               r = of_int (round_half_even (a / pow2 e)) * pow2 e
           in if x < 0 then - r else r)"

text \<open>\<open>((msrp - price) / msrp) * 100\<close> for integers \<open>msrp \<noteq> 0\<close> and \<open>price\<close>.\<close>

definition discount_pct :: "int \<Rightarrow> int \<Rightarrow> rat" where
  "discount_pct msrp price = fl_round (fl_round (of_int (msrp - price) / of_int msrp) * 100)"

subsection \<open>Dates and times\<close>

text \<open>
  A reading of a clock, as the fields of a Python \<open>datetime\<close>. Two clocks are read by
  the program: Python's \<open>datetime.now()\<close> (local time) and SQLite's
  \<open>CURRENT_TIMESTAMP\<close> (UTC).
\<close>

record datetime =
  dt_year :: nat
  dt_month :: nat
  dt_day :: nat
  dt_hour :: nat
  dt_minute :: nat
  dt_second :: nat
  dt_microsecond :: nat

definition digit :: "nat \<Rightarrow> char" where
  "digit n = ''0123456789'' ! (n mod 10)"

definition pad2 :: "nat \<Rightarrow> string" where
  "pad2 n = [digit (n div 10), digit n]"

definition pad4 :: "nat \<Rightarrow> string" where
  "pad4 n = [digit (n div 1000), digit (n div 100), digit (n div 10), digit n]"

definition pad6 :: "nat \<Rightarrow> string" where
  "pad6 n = [digit (n div 100000), digit (n div 10000), digit (n div 1000),
             digit (n div 100), digit (n div 10), digit n]"

text \<open>\<open>datetime.isoformat()\<close>: \<open>YYYY-MM-DDTHH:MM:SS\<close>, then \<open>.ffffff\<close> unless the
  microseconds are zero.\<close>

definition isoformat :: "datetime \<Rightarrow> string" where
  "isoformat t =
     pad4 (dt_year t) @ ''-'' @ pad2 (dt_month t) @ ''-'' @ pad2 (dt_day t) @ ''T'' @
     pad2 (dt_hour t) @ '':'' @ pad2 (dt_minute t) @ '':'' @ pad2 (dt_second t) @
     (if dt_microsecond t = 0 then [] else ''.'' @ pad6 (dt_microsecond t))"

text \<open>The text SQLite stores for \<open>DEFAULT CURRENT_TIMESTAMP\<close>: \<open>YYYY-MM-DD HH:MM:SS\<close>.\<close>

definition sqlite_timestamp :: "datetime \<Rightarrow> string" where
  "sqlite_timestamp t =
     pad4 (dt_year t) @ ''-'' @ pad2 (dt_month t) @ ''-'' @ pad2 (dt_day t) @ '' '' @
     pad2 (dt_hour t) @ '':'' @ pad2 (dt_minute t) @ '':'' @ pad2 (dt_second t)"

text \<open>
  \<open>datetime - timedelta(days=n)\<close>, through the proleptic Gregorian ordinal of the date
  as Python's \<open>datetime\<close> module computes it; the time of day is unchanged.
\<close>

definition is_leap :: "int \<Rightarrow> bool" where
  "is_leap y = (y mod 4 = 0 \<and> (if y mod 100 = 0 then y mod 400 = 0 else True))"

definition days_in_month :: "int \<Rightarrow> nat \<Rightarrow> int" where
  "days_in_month y m =
     (if m = 2 \<and> is_leap y then 29
      else [31, 28, 31, 30, 31, 30, 31, 31, 30, 31, 30, 31] ! (m - 1))"

definition days_before_month :: "int \<Rightarrow> nat \<Rightarrow> int" where
  "days_before_month y m = sum_list (map (days_in_month y) [1..<m])"

definition days_before_year :: "int \<Rightarrow> int" where
  "days_before_year y = (y - 1) * 365 + (y - 1) div 4 - (y - 1) div 100 + (y - 1) div 400"

definition ymd2ord :: "int \<Rightarrow> nat \<Rightarrow> nat \<Rightarrow> int" where
  "ymd2ord y m d = days_before_year y + days_before_month y m + int d"

definition ord2ymd :: "int \<Rightarrow> int \<times> nat \<times> nat" where
  "ord2ymd n0 =
     (let n = n0 - 1;
          n400 = n div 146097; n = n mod 146097;
          n100 = n div 36524; n = n mod 36524;
          n4 = n div 1461; n = n mod 1461;
          n1 = n div 365; n = n mod 365;
          y = n400 * 400 + 1 + n100 * 100 + n4 * 4 + n1
      in if n1 = 4 \<or> n100 = 4 then (y - 1, 12, 31)
         else let leap = (n1 = 3 \<and> (if n4 = 24 then n100 = 3 else True));
                  m = nat ((n + 50) div 32);
                  pre = sum_list (map (days_in_month 1) [1..<m]) + (if 2 < m \<and> leap then 1 else 0)
              in if n < pre
                 then let m' = m - 1;
                          pre' = pre - (days_in_month 1 m' + (if m' = 2 \<and> leap then 1 else 0))
                      in (y, m', nat (n - pre' + 1))
                 else (y, m, nat (n - pre + 1)))"

definition minus_days :: "datetime \<Rightarrow> int \<Rightarrow> error + datetime" where
  "minus_days t n =
     (if 999999999 < \<bar>n\<bar> then Inl OverflowError
      else let ord = ymd2ord (int (dt_year t)) (dt_month t) (dt_day t) - n
           in if ord < 1 \<or> 3652059 < ord then Inl OverflowError
              else let (y, m, d) = ord2ymd ord
                   in Inr (t\<lparr>dt_year := nat y, dt_month := m, dt_day := d\<rparr>))"

section \<open>The store\<close>

text \<open>
  The observation handed to \<open>upsert_listing\<close> (the dict \<open>listing\<close>). The five keys
  read with \<open>listing[...]\<close> are entries; the others are read with \<open>listing.get\<close>.
  Integers are Python's unbounded integers.
\<close>

record candidate =
  c_source :: "string entry"
  c_listing_id :: "string entry"
  c_make :: "string entry"
  c_model :: "string entry"
  c_year :: "int entry"
  c_trim :: "string option"
  c_price :: "int option"
  c_msrp :: "int option"
  c_mileage :: "int option"
  c_dealer_name :: "string option"
  c_dealer_phone :: "string option"
  c_dealer_address :: "string option"
  c_listing_url :: "string option"
  c_vin :: "string option"
  c_stock_number :: "string option"

text \<open>An element of the JSON list in the column \<open>price_history\<close>:
  \<open>{"price": ..., "date": ...}\<close>.\<close>

record hist_entry =
  h_price :: "int option"
  h_date :: string

text \<open>A row of the table \<open>listings\<close>; the \<open>NOT NULL\<close> columns are not options.\<close>

record listing =
  l_id :: nat
  l_source :: string
  l_listing_id :: string
  l_make :: string
  l_model :: string
  l_year :: int
  l_trim :: "string option"
  l_price :: "int option"
  l_msrp :: "int option"
  l_mileage :: "int option"
  l_dealer_name :: "string option"
  l_dealer_phone :: "string option"
  l_dealer_address :: "string option"
  l_listing_url :: "string option"
  l_vin :: "string option"
  l_stock_number :: "string option"
  l_first_seen :: string
  l_last_seen :: string
  l_price_history :: "hist_entry list"

text \<open>A row of the table \<open>price_alerts\<close>.\<close>

record alert =
  pa_id :: nat
  pa_listing_id :: nat
  pa_old_price :: "int option"
  pa_new_price :: "int option"
  pa_change_date :: string
  pa_notified :: int

text \<open>
  The database: both tables in rowid order, and for each the value SQLite keeps in
  \<open>sqlite_sequence\<close> for an \<open>AUTOINCREMENT\<close> key, the largest rowid handed
  out so far.
\<close>

record store =
  listings :: "listing list"
  price_alerts :: "alert list"
  listings_seq :: nat
  price_alerts_seq :: nat

text \<open>The rowid of a new row: one more than the larger of the recorded sequence value
  and the largest rowid in the table.\<close>

definition next_rowid :: "nat \<Rightarrow> nat list \<Rightarrow> nat" where
  "next_rowid seq ids = fold max ids seq + 1"

text \<open>What \<open>init_database\<close> creates when no database file exists.\<close>

definition empty_store :: store where
  "empty_store = \<lparr>listings = [], price_alerts = [], listings_seq = 0, price_alerts_seq = 0\<rparr>"

text \<open>The clocks read during one call of \<open>upsert_listing\<close>: \<open>datetime.now()\<close>, and
  the time SQLite fills in for \<open>change_date\<close>.\<close>

record clock =
  py_now :: datetime
  db_now :: datetime

text \<open>The returned action: \<open>'inserted'\<close>, \<open>'updated'\<close> or \<open>'unchanged'\<close>.\<close>

datatype action = Inserted | Updated | Unchanged

section \<open>upsert_listing\<close>

text \<open>\<open>listing[k]\<close>.\<close>

definition subscript :: "string \<Rightarrow> 'a entry \<Rightarrow> error + 'a option" where
  "subscript k e = (case e of Absent \<Rightarrow> Inl (KeyError k) | Null \<Rightarrow> Inr None | Val v \<Rightarrow> Inr (Some v))"

text \<open>\<open>SELECT ... WHERE source = ? AND listing_id = ?\<close> with \<open>fetchone\<close>: a
  \<open>NULL\<close> parameter equals nothing.\<close>

definition select_existing :: "store \<Rightarrow> string option \<Rightarrow> string option \<Rightarrow> listing option" where
  "select_existing s src lid =
     (case src of None \<Rightarrow> None
      | Some a \<Rightarrow> (case lid of None \<Rightarrow> None
          | Some b \<Rightarrow> find (\<lambda>l. l_source l = a \<and> l_listing_id l = b) (listings s)))"

text \<open>\<open>COALESCE(?, column)\<close>.\<close>

definition coalesce :: "'a option \<Rightarrow> 'a option \<Rightarrow> 'a option" where
  "coalesce new old = (case new of None \<Rightarrow> old | Some v \<Rightarrow> Some v)"

text \<open>The assignments both \<open>UPDATE\<close> statements share.\<close>

definition update_common :: "candidate \<Rightarrow> string \<Rightarrow> listing \<Rightarrow> listing" where
  "update_common c now l =
     l\<lparr>l_last_seen := now,
       l_trim := coalesce (c_trim c) (l_trim l),
       l_msrp := coalesce (c_msrp c) (l_msrp l),
       l_mileage := coalesce (c_mileage c) (l_mileage l),
       l_dealer_name := coalesce (c_dealer_name c) (l_dealer_name l),
       l_dealer_phone := coalesce (c_dealer_phone c) (l_dealer_phone l),
       l_dealer_address := coalesce (c_dealer_address c) (l_dealer_address l),
       l_vin := coalesce (c_vin c) (l_vin l),
       l_stock_number := coalesce (c_stock_number c) (l_stock_number l)\<rparr>"

text \<open>\<open>UPDATE listings SET ... WHERE id = ?\<close>.\<close>

definition update_where_id :: "nat \<Rightarrow> (listing \<Rightarrow> listing) \<Rightarrow> store \<Rightarrow> store" where
  "update_where_id i f s = s\<lparr>listings := map (\<lambda>l. if l_id l = i then f l else l) (listings s)\<rparr>"

text \<open>
  \<open>cursor.execute\<close> binds its parameters before the statement runs, and binding an
  integer outside signed 64 bits raises \<open>OverflowError\<close>. \<open>execute ps f s\<close> is a
  statement with the integer parameters \<open>ps\<close> and the effect \<open>f\<close>. The rowid among the
  parameters is not listed: it is a key of the table.
\<close>

definition int64 :: "int option \<Rightarrow> bool" where
  "int64 v = (case v of None \<Rightarrow> True
              | Some n \<Rightarrow> - 9223372036854775808 \<le> n \<and> n \<le> 9223372036854775807)"

definition binds :: "int option list \<Rightarrow> bool" where
  "binds ps = list_all int64 ps"

definition execute :: "int option list \<Rightarrow> (store \<Rightarrow> store) \<Rightarrow> store \<Rightarrow> error + store" where
  "execute ps f s = (if binds ps then Inr (f s) else Inl OverflowError)"

text \<open>The effect of \<open>INSERT INTO price_alerts (listing_id, old_price, new_price)\<close>.\<close>

definition insert_alert :: "datetime \<Rightarrow> nat \<Rightarrow> int option \<Rightarrow> int option \<Rightarrow> store \<Rightarrow> store" where
  "insert_alert t i old new s =
     s\<lparr>price_alerts := price_alerts s @
          [\<lparr>pa_id = next_rowid (price_alerts_seq s) (map pa_id (price_alerts s)),
            pa_listing_id = i, pa_old_price = old, pa_new_price = new,
            pa_change_date = sqlite_timestamp t, pa_notified = 0\<rparr>],
       price_alerts_seq := next_rowid (price_alerts_seq s) (map pa_id (price_alerts s))\<rparr>"

text \<open>\<open>INSERT INTO listings\<close>: the parameters are bound, then the \<open>NOT NULL\<close>
  constraints are checked.\<close>

definition insert_listing ::
  "string option \<Rightarrow> string option \<Rightarrow> string option \<Rightarrow> string option \<Rightarrow> int option \<Rightarrow>
   candidate \<Rightarrow> string \<Rightarrow> store \<Rightarrow> error + store" where
  "insert_listing src lid mk md yr c now s =
     (if binds [yr, c_price c, c_msrp c, c_mileage c]
      then
     (case (src, lid, mk, md, yr) of
        (Some a, Some b, Some m, Some d, Some y) \<Rightarrow>
          Inr (s\<lparr>listings := listings s @
                 [\<lparr>l_id = next_rowid (listings_seq s) (map l_id (listings s)),
                   l_source = a, l_listing_id = b, l_make = m,
                   l_model = d, l_year = y, l_trim = c_trim c, l_price = c_price c,
                   l_msrp = c_msrp c, l_mileage = c_mileage c,
                   l_dealer_name = c_dealer_name c, l_dealer_phone = c_dealer_phone c,
                   l_dealer_address = c_dealer_address c, l_listing_url = c_listing_url c,
                   l_vin = c_vin c, l_stock_number = c_stock_number c,
                   l_first_seen = now, l_last_seen = now, l_price_history = []\<rparr>],
                 listings_seq := next_rowid (listings_seq s) (map l_id (listings s))\<rparr>)
      | _ \<Rightarrow> Inl IntegrityError)
      else Inl OverflowError)"

text \<open>
  \<open>upsert_listing\<close> returns the database as it is after the call together with either
  the exception raised or the pair \<open>(action, price_changed)\<close>. An exception leaves the
  database as it was: nothing has been committed when it is raised, also when the
  \<open>INSERT INTO price_alerts\<close> has run and the \<open>UPDATE\<close> after it raises.
\<close>

definition upsert_listing :: "clock \<Rightarrow> store \<Rightarrow> candidate \<Rightarrow> store \<times> (error + action \<times> bool)" where
  "upsert_listing clk s c =
     (case subscript ''source'' (c_source c) of
        Inl e \<Rightarrow> (s, Inl e)
      | Inr src \<Rightarrow>
     (case subscript ''listing_id'' (c_listing_id c) of
        Inl e \<Rightarrow> (s, Inl e)
      | Inr lid \<Rightarrow>
     (let now = isoformat (py_now clk) in
      case select_existing s src lid of
        Some existing \<Rightarrow>
          (let old_price = l_price existing; new_price = c_price c in
           if truthy old_price \<and> truthy new_price \<and> old_price \<noteq> new_price
           then (let price_history = l_price_history existing @
                                       [\<lparr>h_price = old_price, h_date = now\<rparr>]
                 in case execute [old_price, new_price]
                           (insert_alert (db_now clk) (l_id existing) old_price new_price) s of
                      Inl e \<Rightarrow> (s, Inl e)
                    | Inr s1 \<Rightarrow>
                   (case execute [new_price, c_msrp c, c_mileage c]
                           (update_where_id (l_id existing)
                              (\<lambda>l. (update_common c now l)
                                 \<lparr>l_price := new_price, l_price_history := price_history\<rparr>))
                           s1 of
                      Inl e \<Rightarrow> (s, Inl e)
                    | Inr s2 \<Rightarrow> (s2, Inr (Updated, True))))
           else (case execute [c_msrp c, c_mileage c]
                         (update_where_id (l_id existing) (update_common c now)) s of
                   Inl e \<Rightarrow> (s, Inl e)
                 | Inr s1 \<Rightarrow> (s1, Inr (Unchanged, False))))
      | None \<Rightarrow>
          (case subscript ''make'' (c_make c) of
             Inl e \<Rightarrow> (s, Inl e)
           | Inr mk \<Rightarrow>
          (case subscript ''model'' (c_model c) of
             Inl e \<Rightarrow> (s, Inl e)
           | Inr md \<Rightarrow>
          (case subscript ''year'' (c_year c) of
             Inl e \<Rightarrow> (s, Inl e)
           | Inr yr \<Rightarrow>
          (case insert_listing src lid mk md yr c now s of
             Inl e \<Rightarrow> (s, Inl e)
           | Inr s' \<Rightarrow> (s', Inr (Inserted, False)))))))))"

text \<open>
  The loop of \<open>run_full_scrape\<close> over \<open>all_listings\<close>, each listing paired with the
  clocks read while it is processed. An exception of \<open>upsert_listing\<close> is not caught:
  it ends the loop, and the result carries it with the database and the statistics
  reached by then.
\<close>

record stats =
  st_inserted :: nat
  st_updated :: nat
  st_unchanged :: nat
  st_price_drops :: nat

definition count_action :: "action \<Rightarrow> bool \<Rightarrow> stats \<Rightarrow> stats" where
  "count_action a price_changed st =
     (let st' = (case a of
                   Inserted \<Rightarrow> st\<lparr>st_inserted := st_inserted st + 1\<rparr>
                 | Updated \<Rightarrow> st\<lparr>st_updated := st_updated st + 1\<rparr>
                 | Unchanged \<Rightarrow> st\<lparr>st_unchanged := st_unchanged st + 1\<rparr>)
      in if price_changed then st'\<lparr>st_price_drops := st_price_drops st' + 1\<rparr> else st')"

fun process_listings :: "store \<Rightarrow> stats \<Rightarrow> (clock \<times> candidate) list \<Rightarrow> store \<times> stats \<times> error option" where
  "process_listings s st [] = (s, st, None)"
| "process_listings s st ((clk, c) # rest) =
     (case upsert_listing clk s c of
        (s', Inl e) \<Rightarrow> (s', st, Some e)
      | (s', Inr (a, price_changed)) \<Rightarrow> process_listings s' (count_action a price_changed st) rest)"

section \<open>Filters and queries\<close>

text \<open>
  The dict \<open>FILTERS\<close>, read with \<open>filters.get\<close>. The numeric bounds are integers,
  as in the examples of the configuration; \<open>min_discount_percent\<close> is the exact value
  of the configured number.
\<close>

record filters =
  f_price_min :: "int option"
  f_price_max :: "int option"
  f_mileage_max :: "int option"
  f_trims_include :: "string list"
  f_trims_exclude :: "string list"
  f_dealers_include :: "string list"
  f_dealers_exclude :: "string list"
  f_keywords_exclude :: "string list"
  f_year_min :: "int option"
  f_year_max :: "int option"
  f_only_price_drops :: bool
  f_min_discount_percent :: "rat option"

text \<open>The default configuration: every filter disabled.\<close>

definition FILTERS :: filters where
  "FILTERS = \<lparr>f_price_min = None, f_price_max = None, f_mileage_max = None,
     f_trims_include = [], f_trims_exclude = [], f_dealers_include = [],
     f_dealers_exclude = [], f_keywords_exclude = [], f_year_min = None, f_year_max = None,
     f_only_price_drops = False, f_min_discount_percent = None\<rparr>"

text \<open>\<open>a < b\<close> on two integers that the guards before it have found to be present.\<close>

definition int_lt :: "int option \<Rightarrow> int option \<Rightarrow> bool" where
  "int_lt a b = (case a of None \<Rightarrow> False | Some x \<Rightarrow> (case b of None \<Rightarrow> False | Some y \<Rightarrow> x < y))"

text \<open>\<open>any(t.lower() in text for t in ts)\<close>.\<close>

definition any_in :: "string list \<Rightarrow> string \<Rightarrow> bool" where
  "any_in ts text = list_ex (\<lambda>t. py_in (lower t) text) ts"

text \<open>\<open>(x or "").lower()\<close>.\<close>

definition or_empty_lower :: "string option \<Rightarrow> string" where
  "or_empty_lower x = lower (case x of None \<Rightarrow> [] | Some t \<Rightarrow> t)"

text \<open>Each of the following is the condition under which one block of the loop body
  of \<open>apply_filters\<close> reaches \<open>continue\<close>.\<close>

definition drop_price :: "filters \<Rightarrow> listing \<Rightarrow> bool" where
  "drop_price f l =
     (let price = l_price l in
      if truthy price
      then (if truthy (f_price_min f) \<and> int_lt price (f_price_min f) then True
            else truthy (f_price_max f) \<and> int_lt (f_price_max f) price)
      else False)"

definition drop_mileage :: "filters \<Rightarrow> listing \<Rightarrow> bool" where
  "drop_mileage f l =
     (truthy (f_mileage_max f) \<and> truthy (l_mileage l) \<and> int_lt (f_mileage_max f) (l_mileage l))"

definition drop_year :: "filters \<Rightarrow> listing \<Rightarrow> bool" where
  "drop_year f l =
     (let year = Some (l_year l) in
      if truthy year
      then (if truthy (f_year_min f) \<and> int_lt year (f_year_min f) then True
            else truthy (f_year_max f) \<and> int_lt (f_year_max f) year)
      else False)"

definition drop_trim :: "filters \<Rightarrow> listing \<Rightarrow> bool" where
  "drop_trim f l =
     (let trim = or_empty_lower (l_trim l) in
      if f_trims_include f \<noteq> [] \<and> \<not> any_in (f_trims_include f) trim then True
      else f_trims_exclude f \<noteq> [] \<and> any_in (f_trims_exclude f) trim)"

definition drop_dealer :: "filters \<Rightarrow> listing \<Rightarrow> bool" where
  "drop_dealer f l =
     (let dealer = or_empty_lower (l_dealer_name l) in
      if f_dealers_include f \<noteq> [] \<and> \<not> any_in (f_dealers_include f) dealer then True
      else f_dealers_exclude f \<noteq> [] \<and> any_in (f_dealers_exclude f) dealer)"

definition drop_keyword :: "filters \<Rightarrow> listing \<Rightarrow> bool" where
  "drop_keyword f l =
     (f_keywords_exclude f \<noteq> [] \<and>
      any_in (f_keywords_exclude f)
        (lower (or_empty_lower (l_trim l) @ '' '' @ l_make l @ '' '' @ l_model l)))"

text \<open>The block of \<open>min_discount_percent\<close>: with \<open>msrp\<close> and \<open>price\<close> both true
  values the discount is compared; otherwise (the branch \<open>elif not msrp: pass\<close>, or none
  at all) nothing happens.\<close>

definition drop_discount :: "filters \<Rightarrow> listing \<Rightarrow> bool" where
  "drop_discount f l =
     (if truthy_num (f_min_discount_percent f)
      then (if truthy (l_msrp l) \<and> truthy (l_price l)
            then (case l_msrp l of None \<Rightarrow> False | Some msrp \<Rightarrow>
                 (case l_price l of None \<Rightarrow> False | Some price \<Rightarrow>
                 (case f_min_discount_percent f of None \<Rightarrow> False | Some t \<Rightarrow>
                    discount_pct msrp price < t)))
            else False)
      else False)"

definition drop_no_price_drop :: "filters \<Rightarrow> listing \<Rightarrow> bool" where
  "drop_no_price_drop f l = (f_only_price_drops f \<and> l_price_history l = [])"

text \<open>One pass through the loop body: true when the listing is appended to
  \<open>filtered\<close>.\<close>

definition passes :: "filters \<Rightarrow> listing \<Rightarrow> bool" where
  "passes f l =
     (if drop_price f l then False
      else if drop_mileage f l then False
      else if drop_year f l then False
      else if drop_trim f l then False
      else if drop_dealer f l then False
      else if drop_keyword f l then False
      else if drop_discount f l then False
      else if drop_no_price_drop f l then False
      else True)"

fun apply_filters :: "filters \<Rightarrow> listing list \<Rightarrow> listing list" where
  "apply_filters f [] = []"
| "apply_filters f (l # ls) = (if passes f l then l # apply_filters f ls else apply_filters f ls)"

text \<open>
  \<open>get_listings\<close>: the \<open>WHERE\<close> clause built from \<open>make\<close> and \<open>model\<close> (each used
  only when it is a non-empty string), \<open>ORDER BY price ASC\<close>, then the configured
  filters when \<open>use_filters\<close> holds. SQLite orders \<open>NULL\<close> before every integer,
  which is the order of \<open>int option\<close>; rows of equal price are kept in rowid order
  (SQL leaves their order open).
\<close>

definition where_matches :: "(listing \<Rightarrow> string) \<Rightarrow> string option \<Rightarrow> listing \<Rightarrow> bool" where
  "where_matches col param l =
     (case param of None \<Rightarrow> True
      | Some v \<Rightarrow> (if v = [] then True else lower (col l) = lower v))"

definition get_listings :: "filters \<Rightarrow> store \<Rightarrow> string option \<Rightarrow> string option \<Rightarrow> bool \<Rightarrow> listing list" where
  "get_listings cfg s make_arg model_arg use_filters =
     (let rows = sort_key l_price
                   (filter (\<lambda>l. where_matches l_make make_arg l \<and> where_matches l_model model_arg l)
                      (listings s))
      in if use_filters then apply_filters cfg rows else rows)"

text \<open>A row of the result of \<open>get_price_drops\<close>: \<open>pa.*\<close> and six columns of the
  listing.\<close>

record price_drop =
  d_id :: nat
  d_listing_id :: nat
  d_old_price :: "int option"
  d_new_price :: "int option"
  d_change_date :: string
  d_notified :: int
  d_make :: string
  d_model :: string
  d_year :: int
  d_trim :: "string option"
  d_dealer_name :: "string option"
  d_listing_url :: "string option"

definition join_row :: "alert \<Rightarrow> listing \<Rightarrow> price_drop" where
  "join_row a l =
     \<lparr>d_id = pa_id a, d_listing_id = pa_listing_id a, d_old_price = pa_old_price a,
      d_new_price = pa_new_price a, d_change_date = pa_change_date a,
      d_notified = pa_notified a, d_make = l_make l, d_model = l_model l, d_year = l_year l,
      d_trim = l_trim l, d_dealer_name = l_dealer_name l, d_listing_url = l_listing_url l\<rparr>"

text \<open>
  The query of \<open>get_price_drops\<close> for a cutoff text: the join on
  \<open>pa.listing_id = l.id\<close>, the comparison \<open>pa.change_date >= ?\<close> (both sides are
  text, compared byte by byte), and \<open>ORDER BY pa.change_date DESC\<close>.
\<close>

definition select_price_drops :: "store \<Rightarrow> string \<Rightarrow> price_drop list" where
  "select_price_drops s cutoff =
     rev (sort_key d_change_date
       (concat (map (\<lambda>a. map (join_row a) (filter (\<lambda>l. l_id l = pa_listing_id a) (listings s)))
          (filter (\<lambda>a. cutoff \<le> pa_change_date a) (price_alerts s)))))"

text \<open>\<open>get_price_drops\<close>, with the reading \<open>now\<close> of \<open>datetime.now()\<close>.\<close>

definition get_price_drops :: "datetime \<Rightarrow> store \<Rightarrow> int \<Rightarrow> error + price_drop list" where
  "get_price_drops now s days =
     (case minus_days now days of
        Inl e \<Rightarrow> Inl e
      | Inr t \<Rightarrow> Inr (select_price_drops s (isoformat t)))"

section \<open>Example data\<close>

text \<open>A time of day in 2026, on the hour, and the clocks of a host whose local time is
  UTC, so that Python and SQLite read the same time.\<close>

definition at_time :: "nat \<Rightarrow> nat \<Rightarrow> nat \<Rightarrow> datetime" where
  "at_time mo d h = \<lparr>dt_year = 2026, dt_month = mo, dt_day = d, dt_hour = h, dt_minute = 0,
     dt_second = 0, dt_microsecond = 0\<rparr>"

definition utc_clock :: "datetime \<Rightarrow> clock" where
  "utc_clock t = \<lparr>py_now = t, db_now = t\<rparr>"

text \<open>An observation of one Tundra on cars.com, with a given trim and price, and the
  database after it has been merged into the empty database on 27 October at 09:00.\<close>

definition tundra :: "string option \<Rightarrow> int option \<Rightarrow> candidate" where
  "tundra tr p = \<lparr>c_source = Val ''cars.com'', c_listing_id = Val ''1'', c_make = Val ''Toyota'',
     c_model = Val ''Tundra'', c_year = Val 2025, c_trim = tr, c_price = p,
     c_msrp = None, c_mileage = None, c_dealer_name = None, c_dealer_phone = None,
     c_dealer_address = None, c_listing_url = None, c_vin = None, c_stock_number = None\<rparr>"

definition tundra_row :: "int option \<Rightarrow> listing" where
  "tundra_row p = \<lparr>l_id = 1, l_source = ''cars.com'', l_listing_id = ''1'', l_make = ''Toyota'',
     l_model = ''Tundra'', l_year = 2025, l_trim = Some ''SR5'', l_price = p, l_msrp = None,
     l_mileage = None, l_dealer_name = None, l_dealer_phone = None, l_dealer_address = None,
     l_listing_url = None, l_vin = None, l_stock_number = None,
     l_first_seen = ''2026-10-27T09:00:00'', l_last_seen = ''2026-10-27T09:00:00'',
     l_price_history = []\<rparr>"

definition tundra_store :: "int option \<Rightarrow> store" where
  "tundra_store p = \<lparr>listings = [tundra_row p], price_alerts = [], listings_seq = 1,
     price_alerts_seq = 0\<rparr>"

text \<open>A row like \<open>tundra_row\<close> with another rowid and listing id, and a configuration
  with the price bounds 40000 and 50000 and nothing else.\<close>

definition truck :: "nat \<Rightarrow> string \<Rightarrow> int option \<Rightarrow> listing" where
  "truck i lid p = (tundra_row p)\<lparr>l_id := i, l_listing_id := lid\<rparr>"

definition price_window :: filters where
  "price_window = FILTERS\<lparr>f_price_min := Some 40000, f_price_max := Some 50000\<rparr>"

text \<open>The table with a priced and an unpriced listing, in this rowid order, and the
  statistics with which \<open>run_full_scrape\<close> starts.\<close>

definition two_store :: store where
  "two_store = \<lparr>listings = [truck 1 ''1'' (Some 45000), truck 2 ''2'' None], price_alerts = [],
     listings_seq = 2, price_alerts_seq = 0\<rparr>"

definition no_stats :: stats where
  "no_stats = \<lparr>st_inserted = 0, st_updated = 0, st_unchanged = 0, st_price_drops = 0\<rparr>"




text \<open>\<open>tundra_row\<close> after a second observation on 28 October at 11:00, and the
  database after that observation has changed the price from 45000 to 43000.\<close>

definition later_row :: "int option \<Rightarrow> listing" where
  "later_row p = (tundra_row p)\<lparr>l_last_seen := ''2026-10-28T11:00:00''\<rparr>"

definition drop_store :: store where
  "drop_store =
     \<lparr>listings = [(later_row (Some 43000))
          \<lparr>l_price_history := [\<lparr>h_price = Some 45000, h_date = ''2026-10-28T11:00:00''\<rparr>]\<rparr>],
      price_alerts = [\<lparr>pa_id = 1, pa_listing_id = 1, pa_old_price = Some 45000,
          pa_new_price = Some 43000, pa_change_date = ''2026-10-28 11:00:00'',
          pa_notified = 0\<rparr>],
      listings_seq = 1, price_alerts_seq = 1\<rparr>"

text \<open>A configuration with \<open>min_discount_percent = 5\<close> and nothing else.\<close>

definition min_discount_5 :: filters where
  "min_discount_5 = FILTERS\<lparr>f_min_discount_percent := Some 5\<rparr>"

section \<open>Notions used in the statements\<close>

text \<open>The database \<open>s\<close> with \<open>last_seen\<close> of the listing \<open>(a, b)\<close> set to \<open>t\<close>.\<close>

definition touch :: "string \<Rightarrow> string \<Rightarrow> string \<Rightarrow> store \<Rightarrow> store" where
  "touch a b t s =
     s\<lparr>listings := map (\<lambda>l. if l_source l = a \<and> l_listing_id l = b then l\<lparr>l_last_seen := t\<rparr>
                            else l) (listings s)\<rparr>"

text \<open>The row that \<open>INSERT INTO listings\<close> adds for a candidate with all five required
  entries.\<close>

definition new_row :: "store \<Rightarrow> candidate \<Rightarrow> string \<Rightarrow> string \<Rightarrow> string \<Rightarrow> string \<Rightarrow> int \<Rightarrow> string \<Rightarrow> listing" where
  "new_row s c a b mk md y now =
     \<lparr>l_id = next_rowid (listings_seq s) (map l_id (listings s)), l_source = a,
      l_listing_id = b, l_make = mk, l_model = md, l_year = y, l_trim = c_trim c,
      l_price = c_price c, l_msrp = c_msrp c, l_mileage = c_mileage c,
      l_dealer_name = c_dealer_name c, l_dealer_phone = c_dealer_phone c,
      l_dealer_address = c_dealer_address c, l_listing_url = c_listing_url c,
      l_vin = c_vin c, l_stock_number = c_stock_number c,
      l_first_seen = now, l_last_seen = now, l_price_history = []\<rparr>"




text \<open>An observation of the Tundra with an msrp of \<open>2^63\<close>.\<close>

definition huge_msrp :: candidate where
  "huge_msrp = (tundra (Some ''SR5'') (Some 45000))\<lparr>c_msrp := Some 9223372036854775808\<rparr>"

section \<open>Merging into an existing listing\<close>

lemma binds_simps [simp]:
  "binds [] = True" "binds (p # ps) = (int64 p \<and> binds ps)"
  by (simp_all add: binds_def)

lemma int64_None [simp]: "int64 None"
  by (simp add: int64_def)

lemma tundra_store_reached:
  "int64 p \<Longrightarrow>
   upsert_listing (utc_clock (at_time 10 27 9)) empty_store (tundra (Some ''SR5'') p) =
     (tundra_store p, Inr (Inserted, False))"
  by (simp add: upsert_listing_def subscript_def select_existing_def empty_store_def tundra_def
      insert_listing_def next_rowid_def tundra_store_def tundra_row_def utc_clock_def at_time_def
      isoformat_def pad2_def pad4_def digit_def Let_def int64_def)

lemma tundra_selected:
  "select_existing (tundra_store p) (Some ''cars.com'') (Some ''1'') = Some (tundra_row p)"
  by (simp add: select_existing_def tundra_store_def tundra_row_def)

lemma find_map_preserving:
  "(\<And>x. P (g x) = P x) \<Longrightarrow> find P (map g xs) = map_option g (find P xs)"
  by (induction xs) simp_all

lemma select_existing_update_where_id:
  assumes "\<And>l. l_source (g l) = l_source l" and "\<And>l. l_listing_id (g l) = l_listing_id l"
  shows "select_existing (update_where_id i g s) src lid =
         map_option (\<lambda>l. if l_id l = i then g l else l) (select_existing s src lid)"
proof (cases src)
  case None
  then show ?thesis by (simp add: select_existing_def)
next
  case (Some a)
  show ?thesis
  proof (cases lid)
    case None
    with Some show ?thesis by (simp add: select_existing_def)
  next
    case (Some b)
    have "find (\<lambda>l. l_source l = a \<and> l_listing_id l = b)
            (map (\<lambda>l. if l_id l = i then g l else l) (listings s)) =
          map_option (\<lambda>l. if l_id l = i then g l else l)
            (find (\<lambda>l. l_source l = a \<and> l_listing_id l = b) (listings s))"
      by (rule find_map_preserving) (simp add: assms)
    with \<open>src = Some a\<close> Some show ?thesis
      by (simp add: select_existing_def update_where_id_def)
  qed
qed

lemma select_existing_insert_alert [simp]:
  "select_existing (insert_alert t i old new s) src lid = select_existing s src lid"
  by (simp add: select_existing_def insert_alert_def split: option.splits)

lemma update_common_identity [simp]:
  "l_source (update_common c now l) = l_source l"
  "l_listing_id (update_common c now l) = l_listing_id l"
  "l_id (update_common c now l) = l_id l"
  by (simp_all add: update_common_def)

text \<open>The branches of \<open>upsert_listing\<close> for an identity that is in the table.\<close>

lemma upsert_listing_existing:
  assumes "c_source c = Val a" and "c_listing_id c = Val b"
    and "select_existing s (Some a) (Some b) = Some e"
  shows "upsert_listing clk s c =
     (if truthy (l_price e) \<and> truthy (c_price c) \<and> l_price e \<noteq> c_price c
      then (if int64 (l_price e) \<and> int64 (c_price c) \<and> int64 (c_msrp c) \<and> int64 (c_mileage c)
            then (update_where_id (l_id e)
                    (\<lambda>l. (update_common c (isoformat (py_now clk)) l)
                       \<lparr>l_price := c_price c,
                        l_price_history := l_price_history e @
                           [\<lparr>h_price = l_price e, h_date = isoformat (py_now clk)\<rparr>]\<rparr>)
                    (insert_alert (db_now clk) (l_id e) (l_price e) (c_price c) s),
                  Inr (Updated, True))
            else (s, Inl OverflowError))
      else (if int64 (c_msrp c) \<and> int64 (c_mileage c)
            then (update_where_id (l_id e) (update_common c (isoformat (py_now clk))) s,
                  Inr (Unchanged, False))
            else (s, Inl OverflowError)))"
  using assms by (simp add: upsert_listing_def subscript_def Let_def execute_def)

text \<open>The row found for the identity after the call.\<close>

lemma stored_after_upsert:
  assumes "c_source c = Val a" and "c_listing_id c = Val b"
    and "select_existing s (Some a) (Some b) = Some e"
  shows "select_existing (fst (upsert_listing clk s c)) (Some a) (Some b) =
     Some (if truthy (l_price e) \<and> truthy (c_price c) \<and> l_price e \<noteq> c_price c
           then (if int64 (l_price e) \<and> int64 (c_price c) \<and> int64 (c_msrp c) \<and>
                    int64 (c_mileage c)
                 then (update_common c (isoformat (py_now clk)) e)
                       \<lparr>l_price := c_price c,
                        l_price_history := l_price_history e @
                           [\<lparr>h_price = l_price e, h_date = isoformat (py_now clk)\<rparr>]\<rparr>
                 else e)
           else (if int64 (c_msrp c) \<and> int64 (c_mileage c)
                 then update_common c (isoformat (py_now clk)) e else e))"
  using assms
  by (simp add: upsert_listing_existing [OF assms] select_existing_update_where_id)

lemma truthy_iff: "truthy v = (\<exists>n. v = Some n \<and> n \<noteq> 0)"
  by (cases v) (simp_all add: truthy_def)

lemma price_guard_iff:
  "(truthy x \<and> truthy y \<and> x \<noteq> y) =
   (\<exists>old new. x = Some old \<and> y = Some new \<and> old \<noteq> 0 \<and> new \<noteq> 0 \<and> old \<noteq> new)"
  by (auto simp: truthy_iff)

text \<open>A call for an identity in the table either completes or raises
  \<open>OverflowError\<close> and leaves the database as it was.\<close>

lemma upsert_listing_existing_outcome:
  assumes "c_source c = Val a" and "c_listing_id c = Val b"
    and "select_existing s (Some a) (Some b) = Some e"
  shows "(\<exists>r. snd (upsert_listing clk s c) = Inr r) \<or>
         upsert_listing clk s c = (s, Inl OverflowError)"
  by (auto simp: upsert_listing_existing [OF assms])

text \<open>The branch without a price change.\<close>

lemma upsert_listing_no_change:
  assumes "c_source c = Val a" and "c_listing_id c = Val b"
    and "select_existing s (Some a) (Some b) = Some e"
    and g: "\<not> (truthy (l_price e) \<and> truthy (c_price c) \<and> l_price e \<noteq> c_price c)"
  shows "snd (upsert_listing clk s c) =
           (if int64 (c_msrp c) \<and> int64 (c_mileage c) then Inr (Unchanged, False)
            else Inl OverflowError)"
    and "price_alerts (fst (upsert_listing clk s c)) = price_alerts s"
    and "\<exists>e'. select_existing (fst (upsert_listing clk s c)) (Some a) (Some b) = Some e' \<and>
            l_price e' = l_price e \<and> l_price_history e' = l_price_history e"
proof -
  note h = assms(1-3)
  have u: "upsert_listing clk s c =
      (if int64 (c_msrp c) \<and> int64 (c_mileage c)
       then (update_where_id (l_id e) (update_common c (isoformat (py_now clk))) s,
             Inr (Unchanged, False))
       else (s, Inl OverflowError))"
    by (simp only: upsert_listing_existing [OF h] if_not_P [OF g])
  have st: "select_existing (fst (upsert_listing clk s c)) (Some a) (Some b) =
      Some (if int64 (c_msrp c) \<and> int64 (c_mileage c)
            then update_common c (isoformat (py_now clk)) e else e)"
    by (simp only: stored_after_upsert [OF h] if_not_P [OF g])
  show "snd (upsert_listing clk s c) =
           (if int64 (c_msrp c) \<and> int64 (c_mileage c) then Inr (Unchanged, False)
            else Inl OverflowError)"
    by (simp add: u)
  show "price_alerts (fst (upsert_listing clk s c)) = price_alerts s"
    by (simp add: u update_where_id_def)
  show "\<exists>e'. select_existing (fst (upsert_listing clk s c)) (Some a) (Some b) = Some e' \<and>
            l_price e' = l_price e \<and> l_price_history e' = l_price_history e"
    by (simp add: st update_common_def)
qed

text \<open>
  Claim C4, amended. A merge onto a listing that is in the table completes whenever the
  stored price and the candidate's price, msrp and mileage are within signed 64 bits.
  When it completes, whether or not the price changes, it sets each of trim, msrp,
  mileage, dealer name, dealer phone, dealer address, VIN and stock number to the
  candidate's value when that value is not null, and keeps the stored value when it is
  null. When it does not complete, it raises \<open>OverflowError\<close> and changes nothing.
\<close>

theorem merge_keeps_known_fields:
  assumes "c_source c = Val a" and "c_listing_id c = Val b"
    and "select_existing s (Some a) (Some b) = Some e"
  shows "(int64 (l_price e) \<and> int64 (c_price c) \<and> int64 (c_msrp c) \<and> int64 (c_mileage c) \<longrightarrow>
            (\<exists>r. snd (upsert_listing clk s c) = Inr r)) \<and>
     ((\<exists>r. snd (upsert_listing clk s c) = Inr r) \<longrightarrow>
        (\<exists>e'. select_existing (fst (upsert_listing clk s c)) (Some a) (Some b) = Some e'
         \<and> l_trim e' = (case c_trim c of None \<Rightarrow> l_trim e | Some v \<Rightarrow> Some v)
         \<and> l_msrp e' = (case c_msrp c of None \<Rightarrow> l_msrp e | Some v \<Rightarrow> Some v)
         \<and> l_mileage e' = (case c_mileage c of None \<Rightarrow> l_mileage e | Some v \<Rightarrow> Some v)
         \<and> l_dealer_name e' =
             (case c_dealer_name c of None \<Rightarrow> l_dealer_name e | Some v \<Rightarrow> Some v)
         \<and> l_dealer_phone e' =
             (case c_dealer_phone c of None \<Rightarrow> l_dealer_phone e | Some v \<Rightarrow> Some v)
         \<and> l_dealer_address e' =
             (case c_dealer_address c of None \<Rightarrow> l_dealer_address e | Some v \<Rightarrow> Some v)
         \<and> l_vin e' = (case c_vin c of None \<Rightarrow> l_vin e | Some v \<Rightarrow> Some v)
         \<and> l_stock_number e' =
             (case c_stock_number c of None \<Rightarrow> l_stock_number e | Some v \<Rightarrow> Some v))) \<and>
     ((\<forall>r. snd (upsert_listing clk s c) \<noteq> Inr r) \<longrightarrow>
        upsert_listing clk s c = (s, Inl OverflowError))"
proof (intro conjI impI)
  assume "int64 (l_price e) \<and> int64 (c_price c) \<and> int64 (c_msrp c) \<and> int64 (c_mileage c)"
  then show "\<exists>r. snd (upsert_listing clk s c) = Inr r"
    by (auto simp: upsert_listing_existing [OF assms])
next
  assume "\<exists>r. snd (upsert_listing clk s c) = Inr r"
  then have ok: "if truthy (l_price e) \<and> truthy (c_price c) \<and> l_price e \<noteq> c_price c
      then int64 (l_price e) \<and> int64 (c_price c) \<and> int64 (c_msrp c) \<and> int64 (c_mileage c)
      else int64 (c_msrp c) \<and> int64 (c_mileage c)"
    by (auto simp: upsert_listing_existing [OF assms] split: if_splits)
  show "\<exists>e'. select_existing (fst (upsert_listing clk s c)) (Some a) (Some b) = Some e'
         \<and> l_trim e' = (case c_trim c of None \<Rightarrow> l_trim e | Some v \<Rightarrow> Some v)
         \<and> l_msrp e' = (case c_msrp c of None \<Rightarrow> l_msrp e | Some v \<Rightarrow> Some v)
         \<and> l_mileage e' = (case c_mileage c of None \<Rightarrow> l_mileage e | Some v \<Rightarrow> Some v)
         \<and> l_dealer_name e' =
             (case c_dealer_name c of None \<Rightarrow> l_dealer_name e | Some v \<Rightarrow> Some v)
         \<and> l_dealer_phone e' =
             (case c_dealer_phone c of None \<Rightarrow> l_dealer_phone e | Some v \<Rightarrow> Some v)
         \<and> l_dealer_address e' =
             (case c_dealer_address c of None \<Rightarrow> l_dealer_address e | Some v \<Rightarrow> Some v)
         \<and> l_vin e' = (case c_vin c of None \<Rightarrow> l_vin e | Some v \<Rightarrow> Some v)
         \<and> l_stock_number e' =
             (case c_stock_number c of None \<Rightarrow> l_stock_number e | Some v \<Rightarrow> Some v)"
    using ok
    by (simp add: stored_after_upsert [OF assms] update_common_def coalesce_def
        split: if_splits)
next
  assume "\<forall>r. snd (upsert_listing clk s c) \<noteq> Inr r"
  with upsert_listing_existing_outcome [OF assms, of clk]
  show "upsert_listing clk s c = (s, Inl OverflowError)" by blast
qed

text \<open>The stored trim \<open>SR5\<close> survives a later observation whose trim is null.\<close>

theorem merge_keeps_known_fields_witness:
  "c_source (tundra None (Some 45000)) = Val ''cars.com'' \<and>
   c_listing_id (tundra None (Some 45000)) = Val ''1'' \<and>
   select_existing (tundra_store (Some 45000)) (Some ''cars.com'') (Some ''1'') =
     Some (tundra_row (Some 45000)) \<and>
   int64 (l_price (tundra_row (Some 45000))) \<and> int64 (c_price (tundra None (Some 45000))) \<and>
   int64 (c_msrp (tundra None (Some 45000))) \<and> int64 (c_mileage (tundra None (Some 45000))) \<and>
   (\<exists>r. snd (upsert_listing (utc_clock (at_time 10 28 11)) (tundra_store (Some 45000))
               (tundra None (Some 45000))) = Inr r) \<and>
   (\<exists>e'. select_existing
           (fst (upsert_listing (utc_clock (at_time 10 28 11)) (tundra_store (Some 45000))
                  (tundra None (Some 45000))))
           (Some ''cars.com'') (Some ''1'') = Some e' \<and> l_trim e' = Some ''SR5'')"
proof -
  let ?c = "tundra None (Some 45000)"
  have h1: "c_source ?c = Val ''cars.com''" and h2: "c_listing_id ?c = Val ''1''"
    by (simp_all add: tundra_def)
  note h3 = tundra_selected [of "Some 45000"]
  have fits: "int64 (l_price (tundra_row (Some 45000))) \<and> int64 (c_price ?c) \<and>
      int64 (c_msrp ?c) \<and> int64 (c_mileage ?c)"
    by (simp add: tundra_def tundra_row_def int64_def)
  note th = merge_keeps_known_fields [OF h1 h2 h3, of "utc_clock (at_time 10 28 11)"]
  from th fits have fin: "\<exists>r. snd (upsert_listing (utc_clock (at_time 10 28 11))
      (tundra_store (Some 45000)) ?c) = Inr r"
    by blast
  with th obtain e' where
    "select_existing
       (fst (upsert_listing (utc_clock (at_time 10 28 11)) (tundra_store (Some 45000)) ?c))
       (Some ''cars.com'') (Some ''1'') = Some e'"
    and "l_trim e' = (case c_trim ?c of
                        None \<Rightarrow> l_trim (tundra_row (Some 45000)) | Some v \<Rightarrow> Some v)"
    by blast
  moreover have "c_trim ?c = None" and "l_trim (tundra_row (Some 45000)) = Some ''SR5''"
    by (simp_all add: tundra_def tundra_row_def)
  ultimately have "\<exists>e'. select_existing
       (fst (upsert_listing (utc_clock (at_time 10 28 11)) (tundra_store (Some 45000)) ?c))
       (Some ''cars.com'') (Some ''1'') = Some e' \<and> l_trim e' = Some ''SR5''"
    by simp
  with h1 h2 h3 fits fin show ?thesis by blast
qed

text \<open>A candidate msrp of \<open>2^63\<close> is not null and is not stored: the call raises
  \<open>OverflowError\<close> and the stored msrp stays null.\<close>

theorem merge_huge_msrp_counterexample:
  "select_existing (tundra_store (Some 45000)) (Some ''cars.com'') (Some ''1'') =
     Some (tundra_row (Some 45000)) \<and>
   l_msrp (tundra_row (Some 45000)) = None \<and>
   c_msrp huge_msrp = Some 9223372036854775808 \<and>
   upsert_listing (utc_clock (at_time 10 28 11)) (tundra_store (Some 45000)) huge_msrp =
     (tundra_store (Some 45000), Inl OverflowError)"
proof -
  have h1: "c_source huge_msrp = Val ''cars.com''" and h2: "c_listing_id huge_msrp = Val ''1''"
    by (simp_all add: huge_msrp_def tundra_def)
  note h3 = tundra_selected [of "Some 45000"]
  have "upsert_listing (utc_clock (at_time 10 28 11)) (tundra_store (Some 45000)) huge_msrp =
     (tundra_store (Some 45000), Inl OverflowError)"
    unfolding upsert_listing_existing [OF h1 h2 h3]
    by (simp add: huge_msrp_def tundra_def tundra_row_def int64_def)
  with h3 show ?thesis by (simp add: huge_msrp_def tundra_row_def)
qed

text \<open>
  Claim C1, amended. For a merge of a candidate whose identity is in the table, the
  call returns \<open>('updated', True)\<close> or \<open>('unchanged', False)\<close> or raises
  \<open>OverflowError\<close>, which leaves the database as it was. It returns
  \<open>('updated', True)\<close>, the detected price change, exactly when the stored and the
  candidate price are both non-null, both different from zero, and unequal, and the
  stored price and the candidate's price, msrp and mileage are within signed 64 bits.
  Then exactly one row is appended to \<open>price_alerts\<close>, carrying the stored price as
  old and the candidate price as new price, the stored price becomes the candidate
  price, and exactly one entry with the stored price and the current time is appended
  to the listing's price history.
\<close>

theorem price_change_detected:
  assumes "c_source c = Val a" and "c_listing_id c = Val b"
    and "select_existing s (Some a) (Some b) = Some e"
  shows "(snd (upsert_listing clk s c) = Inr (Updated, True) \<or>
          snd (upsert_listing clk s c) = Inr (Unchanged, False) \<or>
          snd (upsert_listing clk s c) = Inl OverflowError) \<and>
     (snd (upsert_listing clk s c) = Inr (Updated, True)) =
       ((\<exists>old new. l_price e = Some old \<and> c_price c = Some new \<and>
                   old \<noteq> 0 \<and> new \<noteq> 0 \<and> old \<noteq> new) \<and>
        int64 (l_price e) \<and> int64 (c_price c) \<and> int64 (c_msrp c) \<and> int64 (c_mileage c)) \<and>
     (snd (upsert_listing clk s c) = Inr (Updated, True) \<longrightarrow>
        (\<exists>ev. price_alerts (fst (upsert_listing clk s c)) = price_alerts s @ [ev] \<and>
              pa_listing_id ev = l_id e \<and> pa_old_price ev = l_price e \<and>
              pa_new_price ev = c_price c) \<and>
        (\<exists>e'. select_existing (fst (upsert_listing clk s c)) (Some a) (Some b) = Some e' \<and>
              l_price e' = c_price c \<and>
              l_price_history e' = l_price_history e @
                [\<lparr>h_price = l_price e, h_date = isoformat (py_now clk)\<rparr>])) \<and>
     (snd (upsert_listing clk s c) = Inl OverflowError \<longrightarrow>
        fst (upsert_listing clk s c) = s)"
proof -
  let ?G = "truthy (l_price e) \<and> truthy (c_price c) \<and> l_price e \<noteq> c_price c"
  let ?D = "\<exists>old new. l_price e = Some old \<and> c_price c = Some new \<and>
                   old \<noteq> 0 \<and> new \<noteq> 0 \<and> old \<noteq> new"
  let ?F = "int64 (l_price e) \<and> int64 (c_price c) \<and> int64 (c_msrp c) \<and> int64 (c_mileage c)"
  have gd: "?G = ?D" by (rule price_guard_iff)
  show ?thesis
  proof (cases "?G \<and> ?F")
    case True
    then have g: ?G and f: ?F by blast+
    have u: "upsert_listing clk s c =
        (update_where_id (l_id e)
           (\<lambda>l. (update_common c (isoformat (py_now clk)) l)
              \<lparr>l_price := c_price c,
               l_price_history := l_price_history e @
                  [\<lparr>h_price = l_price e, h_date = isoformat (py_now clk)\<rparr>]\<rparr>)
           (insert_alert (db_now clk) (l_id e) (l_price e) (c_price c) s),
         Inr (Updated, True))"
      by (simp only: upsert_listing_existing [OF assms] if_P [OF g] if_P [OF f])
    have st: "select_existing (fst (upsert_listing clk s c)) (Some a) (Some b) =
        Some ((update_common c (isoformat (py_now clk)) e)
               \<lparr>l_price := c_price c,
                l_price_history := l_price_history e @
                   [\<lparr>h_price = l_price e, h_date = isoformat (py_now clk)\<rparr>]\<rparr>)"
      by (simp only: stored_after_upsert [OF assms] if_P [OF g] if_P [OF f])
    have al: "\<exists>ev. price_alerts (fst (upsert_listing clk s c)) = price_alerts s @ [ev] \<and>
              pa_listing_id ev = l_id e \<and> pa_old_price ev = l_price e \<and>
              pa_new_price ev = c_price c"
      by (simp add: u update_where_id_def insert_alert_def)
    have s': "\<exists>e'. select_existing (fst (upsert_listing clk s c)) (Some a) (Some b) = Some e' \<and>
              l_price e' = c_price c \<and>
              l_price_history e' = l_price_history e @
                [\<lparr>h_price = l_price e, h_date = isoformat (py_now clk)\<rparr>]"
      by (simp add: st)
    have r: "snd (upsert_listing clk s c) = Inr (Updated, True)" by (simp add: u)
    from g gd have d: ?D by blast
    from r d f al s' show ?thesis by simp
  next
    case False
    have r: "snd (upsert_listing clk s c) = Inr (Unchanged, False) \<or>
        upsert_listing clk s c = (s, Inl OverflowError)"
      using False by (auto simp: upsert_listing_existing [OF assms])
    from False gd have nd: "\<not> (?D \<and> ?F)" by blast
    from r have n: "snd (upsert_listing clk s c) \<noteq> Inr (Updated, True)" by auto
    from r have k: "snd (upsert_listing clk s c) = Inl OverflowError \<longrightarrow>
        fst (upsert_listing clk s c) = s" by auto
    from r have o: "snd (upsert_listing clk s c) = Inr (Unchanged, False) \<or>
        snd (upsert_listing clk s c) = Inl OverflowError" by auto
    from n nd k o show ?thesis by blast
  qed
qed

text \<open>The stored price 45000 followed by the candidate price 43000.\<close>

theorem price_change_detected_witness:
  "c_source (tundra (Some ''SR5'') (Some 43000)) = Val ''cars.com'' \<and>
   c_listing_id (tundra (Some ''SR5'') (Some 43000)) = Val ''1'' \<and>
   select_existing (tundra_store (Some 45000)) (Some ''cars.com'') (Some ''1'') =
     Some (tundra_row (Some 45000)) \<and>
   snd (upsert_listing (utc_clock (at_time 10 28 11)) (tundra_store (Some 45000))
          (tundra (Some ''SR5'') (Some 43000))) = Inr (Updated, True) \<and>
   (\<exists>ev. price_alerts
           (fst (upsert_listing (utc_clock (at_time 10 28 11)) (tundra_store (Some 45000))
                  (tundra (Some ''SR5'') (Some 43000)))) = [ev] \<and>
         pa_old_price ev = Some 45000 \<and> pa_new_price ev = Some 43000)"
proof -
  let ?c = "tundra (Some ''SR5'') (Some 43000)"
  have h1: "c_source ?c = Val ''cars.com''" and h2: "c_listing_id ?c = Val ''1''"
    by (simp_all add: tundra_def)
  note h3 = tundra_selected [of "Some 45000"]
  note th = price_change_detected [OF h1 h2 h3, of "utc_clock (at_time 10 28 11)"]
  have p: "l_price (tundra_row (Some 45000)) = Some 45000" "c_price ?c = Some 43000"
    "price_alerts (tundra_store (Some 45000)) = []" "c_msrp ?c = None" "c_mileage ?c = None"
    by (simp_all add: tundra_row_def tundra_def tundra_store_def)
  from th p have u: "snd (upsert_listing (utc_clock (at_time 10 28 11))
      (tundra_store (Some 45000)) ?c) = Inr (Updated, True)"
    by (simp add: int64_def)
  with th p show ?thesis using h1 h2 h3 by auto
qed

text \<open>A stored price of 0 and a candidate price of 43000 are both non-null and unequal,
  and no price change is detected.\<close>

theorem price_change_zero_counterexample:
  "select_existing (tundra_store (Some 0)) (Some ''cars.com'') (Some ''1'') =
     Some (tundra_row (Some 0)) \<and>
   l_price (tundra_row (Some 0)) = Some 0 \<and>
   c_price (tundra (Some ''SR5'') (Some 43000)) = Some 43000 \<and>
   (0::int) \<noteq> 43000 \<and>
   upsert_listing (utc_clock (at_time 10 28 11)) (tundra_store (Some 0))
     (tundra (Some ''SR5'') (Some 43000)) =
   ((tundra_store (Some 0))\<lparr>listings := [later_row (Some 0)]\<rparr>, Inr (Unchanged, False))"
proof -
  let ?c = "tundra (Some ''SR5'') (Some 43000)"
  have h1: "c_source ?c = Val ''cars.com''" and h2: "c_listing_id ?c = Val ''1''"
    by (simp_all add: tundra_def)
  note h3 = tundra_selected [of "Some 0"]
  have "upsert_listing (utc_clock (at_time 10 28 11)) (tundra_store (Some 0)) ?c =
   ((tundra_store (Some 0))\<lparr>listings := [later_row (Some 0)]\<rparr>, Inr (Unchanged, False))"
    unfolding upsert_listing_existing [OF h1 h2 h3]
    by (simp add: truthy_def tundra_row_def tundra_def tundra_store_def update_where_id_def
        update_common_def coalesce_def utc_clock_def at_time_def isoformat_def pad2_def pad4_def
        digit_def later_row_def)
  then show ?thesis using h3 by (simp add: tundra_row_def tundra_def)
qed

section \<open>A price for a listing stored without one\<close>

text \<open>
  Claim C2, amended. For a merge of a candidate whose identity is in the table, when
  the stored price is null or the candidate's price is null, no row is added to
  \<open>price_alerts\<close>, no entry is appended to the price history, and the stored price is
  left as it was: a null stored price stays null when the candidate has a price, and a
  stored price stays when the candidate has none. The call returns
  \<open>('unchanged', False)\<close>, or raises \<open>OverflowError\<close> when the candidate's msrp or
  mileage is outside signed 64 bits.
\<close>

theorem null_price_left_unchanged:
  assumes "c_source c = Val a" and "c_listing_id c = Val b"
    and "select_existing s (Some a) (Some b) = Some e"
    and "l_price e = None \<or> c_price c = None"
  shows "snd (upsert_listing clk s c) =
           (if int64 (c_msrp c) \<and> int64 (c_mileage c) then Inr (Unchanged, False)
            else Inl OverflowError) \<and>
     price_alerts (fst (upsert_listing clk s c)) = price_alerts s \<and>
     (\<exists>e'. select_existing (fst (upsert_listing clk s c)) (Some a) (Some b) = Some e' \<and>
           l_price e' = l_price e \<and> l_price_history e' = l_price_history e)"
proof -
  from assms(4)
  have g: "\<not> (truthy (l_price e) \<and> truthy (c_price c) \<and> l_price e \<noteq> c_price c)"
    by (auto simp: truthy_def)
  from upsert_listing_no_change [OF assms(1-3) g, of clk] show ?thesis by blast
qed

text \<open>The Tundra stored without a price, observed again with the price 43000.\<close>

theorem null_price_left_unchanged_witness:
  "c_source (tundra (Some ''SR5'') (Some 43000)) = Val ''cars.com'' \<and>
   c_listing_id (tundra (Some ''SR5'') (Some 43000)) = Val ''1'' \<and>
   select_existing (tundra_store None) (Some ''cars.com'') (Some ''1'') =
     Some (tundra_row None) \<and>
   l_price (tundra_row None) = None \<and>
   snd (upsert_listing (utc_clock (at_time 10 28 11)) (tundra_store None)
          (tundra (Some ''SR5'') (Some 43000))) = Inr (Unchanged, False) \<and>
   (\<exists>e'. select_existing
           (fst (upsert_listing (utc_clock (at_time 10 28 11)) (tundra_store None)
                  (tundra (Some ''SR5'') (Some 43000))))
           (Some ''cars.com'') (Some ''1'') = Some e' \<and> l_price e' = None)"
proof -
  let ?c = "tundra (Some ''SR5'') (Some 43000)"
  have h1: "c_source ?c = Val ''cars.com''" and h2: "c_listing_id ?c = Val ''1''"
    by (simp_all add: tundra_def)
  note h3 = tundra_selected [of None]
  have h4: "l_price (tundra_row None) = None" by (simp add: tundra_row_def)
  then have h4': "l_price (tundra_row None) = None \<or> c_price ?c = None" by simp
  have f: "int64 (c_msrp ?c) \<and> int64 (c_mileage ?c)" by (simp add: tundra_def)
  from null_price_left_unchanged [OF h1 h2 h3 h4', of "utc_clock (at_time 10 28 11)"] f h4
  have "snd (upsert_listing (utc_clock (at_time 10 28 11)) (tundra_store None) ?c) =
      Inr (Unchanged, False) \<and>
    (\<exists>e'. select_existing
           (fst (upsert_listing (utc_clock (at_time 10 28 11)) (tundra_store None) ?c))
           (Some ''cars.com'') (Some ''1'') = Some e' \<and> l_price e' = None)"
    by auto
  with h1 h2 h3 h4 show ?thesis by blast
qed

text \<open>The candidate's price 43000 does not overwrite the null stored price.\<close>

theorem null_price_not_overwritten_counterexample:
  "l_price (tundra_row None) = None \<and>
   c_price (tundra (Some ''SR5'') (Some 43000)) = Some 43000 \<and>
   upsert_listing (utc_clock (at_time 10 28 11)) (tundra_store None)
     (tundra (Some ''SR5'') (Some 43000)) =
     ((tundra_store None)\<lparr>listings := [later_row None]\<rparr>, Inr (Unchanged, False)) \<and>
   l_price (later_row None) = None"
proof -
  have h1: "c_source (tundra (Some ''SR5'') (Some 43000)) = Val ''cars.com''"
    and h2: "c_listing_id (tundra (Some ''SR5'') (Some 43000)) = Val ''1''"
    by (simp_all add: tundra_def)
  have "upsert_listing (utc_clock (at_time 10 28 11)) (tundra_store None)
     (tundra (Some ''SR5'') (Some 43000)) =
     ((tundra_store None)\<lparr>listings := [later_row None]\<rparr>, Inr (Unchanged, False))"
    unfolding upsert_listing_existing [OF h1 h2 tundra_selected]
    by (simp add: tundra_row_def tundra_def tundra_store_def update_where_id_def
        update_common_def coalesce_def utc_clock_def at_time_def isoformat_def pad2_def pad4_def
        digit_def later_row_def truthy_def)
  then show ?thesis by (simp add: tundra_row_def tundra_def later_row_def)
qed

section \<open>Filtering\<close>

lemma apply_filters_filter: "apply_filters f ls = filter (passes f) ls"
  by (induction ls) simp_all

lemma int_lt_iff: "int_lt x y = (\<exists>p q. x = Some p \<and> y = Some q \<and> p < q)"
  by (cases x; cases y) (simp_all add: int_lt_def)

lemma drop_price_iff:
  "drop_price f l =
     (\<exists>p. l_price l = Some p \<and> p \<noteq> 0 \<and>
        ((\<exists>m. f_price_min f = Some m \<and> m \<noteq> 0 \<and> p < m) \<or>
         (\<exists>m. f_price_max f = Some m \<and> m \<noteq> 0 \<and> m < p)))"
  by (auto simp: drop_price_def truthy_iff int_lt_iff Let_def)

lemma drops_without_price_bounds:
  "drop_price (f\<lparr>f_price_min := None, f_price_max := None\<rparr>) l = False"
  "drop_mileage (f\<lparr>f_price_min := None, f_price_max := None\<rparr>) l = drop_mileage f l"
  "drop_year (f\<lparr>f_price_min := None, f_price_max := None\<rparr>) l = drop_year f l"
  "drop_trim (f\<lparr>f_price_min := None, f_price_max := None\<rparr>) l = drop_trim f l"
  "drop_dealer (f\<lparr>f_price_min := None, f_price_max := None\<rparr>) l = drop_dealer f l"
  "drop_keyword (f\<lparr>f_price_min := None, f_price_max := None\<rparr>) l = drop_keyword f l"
  "drop_discount (f\<lparr>f_price_min := None, f_price_max := None\<rparr>) l = drop_discount f l"
  "drop_no_price_drop (f\<lparr>f_price_min := None, f_price_max := None\<rparr>) l =
     drop_no_price_drop f l"
  by (simp_all add: drop_price_def drop_mileage_def drop_year_def drop_trim_def
      drop_dealer_def drop_keyword_def drop_discount_def drop_no_price_drop_def truthy_def
      cong: option.case_cong)

lemma passes_without_price_bounds:
  "passes f l =
     (\<not> drop_price f l \<and> passes (f\<lparr>f_price_min := None, f_price_max := None\<rparr>) l)"
  by (simp add: passes_def drops_without_price_bounds)

lemma apply_filters_price_bounds:
  "apply_filters f ls =
     filter (\<lambda>l. \<not> drop_price f l)
       (apply_filters (f\<lparr>f_price_min := None, f_price_max := None\<rparr>) ls)"
proof -
  have "filter (passes f) ls =
        filter (\<lambda>l. passes (f\<lparr>f_price_min := None, f_price_max := None\<rparr>) l \<and> \<not> drop_price f l) ls"
    by (rule filter_cong [OF refl]) (auto simp: passes_without_price_bounds [of f])
  then show ?thesis by (simp add: apply_filters_filter)
qed

text \<open>
  Claim C6, amended. For every sequence of listings and every filter configuration,
  the listings that \<open>apply_filters\<close> drops on account of \<open>price_min\<close> and
  \<open>price_max\<close> are exactly those whose price is non-null, different from zero, and
  below a \<open>price_min\<close> that is set and not zero or above a \<open>price_max\<close> that is set
  and not zero: the result is the result without the two bounds, less those listings.
  A listing whose price is null is never dropped on account of the bounds.
\<close>

theorem price_bounds_filter:
  "apply_filters f ls =
     filter (\<lambda>l. \<not> (\<exists>p. l_price l = Some p \<and> p \<noteq> 0 \<and>
                    ((\<exists>m. f_price_min f = Some m \<and> m \<noteq> 0 \<and> p < m) \<or>
                     (\<exists>m. f_price_max f = Some m \<and> m \<noteq> 0 \<and> m < p))))
       (apply_filters (f\<lparr>f_price_min := None, f_price_max := None\<rparr>) ls)"
  by (simp only: apply_filters_price_bounds [of f ls] drop_price_iff)

text \<open>With the default configuration every listing passes.\<close>

lemmas drop_defs = drop_price_def drop_mileage_def drop_year_def drop_trim_def
      drop_dealer_def drop_keyword_def drop_discount_def drop_no_price_drop_def

lemma passes_FILTERS: "passes FILTERS l"
  by (simp add: passes_def drop_defs FILTERS_def truthy_def truthy_num_def)

lemma apply_filters_FILTERS: "apply_filters FILTERS ls = ls"
  by (simp add: apply_filters_filter passes_FILTERS)

text \<open>Of the prices 30000, 45000 and 60000, the bounds 40000 and 50000 keep 45000.\<close>

theorem price_bounds_filter_witness:
  "apply_filters price_window
     [truck 1 ''1'' (Some 30000), truck 2 ''2'' (Some 45000), truck 3 ''3'' (Some 60000)] =
   [truck 2 ''2'' (Some 45000)]"
proof -
  have f0: "price_window\<lparr>f_price_min := None, f_price_max := None\<rparr> = FILTERS"
    by (simp add: price_window_def FILTERS_def)
  have "apply_filters price_window
     [truck 1 ''1'' (Some 30000), truck 2 ''2'' (Some 45000), truck 3 ''3'' (Some 60000)] =
    filter (\<lambda>l. \<not> (\<exists>p. l_price l = Some p \<and> p \<noteq> 0 \<and>
                    ((\<exists>m. f_price_min price_window = Some m \<and> m \<noteq> 0 \<and> p < m) \<or>
                     (\<exists>m. f_price_max price_window = Some m \<and> m \<noteq> 0 \<and> m < p))))
      [truck 1 ''1'' (Some 30000), truck 2 ''2'' (Some 45000), truck 3 ''3'' (Some 60000)]"
    using price_bounds_filter [of price_window
        "[truck 1 ''1'' (Some 30000), truck 2 ''2'' (Some 45000), truck 3 ''3'' (Some 60000)]"]
    by (simp only: f0 apply_filters_FILTERS)
  also have "\<dots> = [truck 2 ''2'' (Some 45000)]"
    by (simp add: truck_def tundra_row_def price_window_def)
  finally show ?thesis .
qed

text \<open>A listing priced 0 has a non-null price outside the bounds 40000 and 50000 and is
  not dropped.\<close>

theorem price_bounds_zero_counterexample:
  "l_price (truck 1 ''1'' (Some 0)) = Some 0 \<and>
   f_price_min price_window = Some 40000 \<and> f_price_max price_window = Some 50000 \<and>
   \<not> ((40000::int) \<le> 0 \<and> (0::int) \<le> 50000) \<and>
   apply_filters price_window [truck 1 ''1'' (Some 0)] = [truck 1 ''1'' (Some 0)]"
  by (simp add: passes_def drop_defs truthy_def truthy_num_def int_lt_def price_window_def
      FILTERS_def truck_def tundra_row_def)

lemma zero_candidate_price_never_changes:
  "c_price c = Some 0 \<Longrightarrow>
     snd (upsert_listing clk s c) \<noteq> Inr (Updated, True) \<and>
     price_alerts (fst (upsert_listing clk s c)) = price_alerts s"
  by (auto simp: upsert_listing_def Let_def truthy_def insert_listing_def update_where_id_def
      execute_def split: sum.splits option.splits if_splits)

text \<open>
  Claim C10. A price of 0 is treated as an absent price. For a merge of a candidate
  whose identity is in the table, when the stored price or the candidate price is 0 no
  price change is detected, also when the two prices are non-null and unequal: the call
  returns \<open>('unchanged', False)\<close> (or raises \<open>OverflowError\<close>, when the candidate's
  msrp or mileage is outside signed 64 bits), no row is added to \<open>price_alerts\<close>, and
  the listing's price and price history stay as they were. In \<open>apply_filters\<close>, the
  listings priced 0 that are kept are those that are kept without \<open>price_min\<close> and
  \<open>price_max\<close>: no bound excludes one. A candidate priced 0 never yields
  \<open>('updated', True)\<close> or a row of \<open>price_alerts\<close>, whether or not its identity is in
  the table.
\<close>

theorem zero_price_is_absent:
  "(c_source c = Val a \<and> c_listing_id c = Val b \<and>
    select_existing s (Some a) (Some b) = Some e \<and>
    (l_price e = Some 0 \<or> c_price c = Some 0) \<longrightarrow>
      snd (upsert_listing clk s c) =
        (if int64 (c_msrp c) \<and> int64 (c_mileage c) then Inr (Unchanged, False)
         else Inl OverflowError) \<and>
      price_alerts (fst (upsert_listing clk s c)) = price_alerts s \<and>
      (\<exists>e'. select_existing (fst (upsert_listing clk s c)) (Some a) (Some b) = Some e' \<and>
            l_price e' = l_price e \<and> l_price_history e' = l_price_history e)) \<and>
   filter (\<lambda>l. l_price l = Some 0) (apply_filters f ls) =
   filter (\<lambda>l. l_price l = Some 0)
     (apply_filters (f\<lparr>f_price_min := None, f_price_max := None\<rparr>) ls) \<and>
   (c_price c = Some 0 \<longrightarrow>
      snd (upsert_listing clk s c) \<noteq> Inr (Updated, True) \<and>
      price_alerts (fst (upsert_listing clk s c)) = price_alerts s)"
proof (intro conjI impI)
  assume h: "c_source c = Val a \<and> c_listing_id c = Val b \<and>
    select_existing s (Some a) (Some b) = Some e \<and>
    (l_price e = Some 0 \<or> c_price c = Some 0)"
  then have h1: "c_source c = Val a" and h2: "c_listing_id c = Val b"
    and h3: "select_existing s (Some a) (Some b) = Some e" by simp_all
  from h have g: "\<not> (truthy (l_price e) \<and> truthy (c_price c) \<and> l_price e \<noteq> c_price c)"
    by (auto simp: truthy_def)
  note nc = upsert_listing_no_change [OF h1 h2 h3 g, of clk]
  show "snd (upsert_listing clk s c) =
        (if int64 (c_msrp c) \<and> int64 (c_mileage c) then Inr (Unchanged, False)
         else Inl OverflowError)"
    by (rule nc(1))
  show "price_alerts (fst (upsert_listing clk s c)) = price_alerts s"
    by (rule nc(2))
  show "\<exists>e'. select_existing (fst (upsert_listing clk s c)) (Some a) (Some b) = Some e' \<and>
            l_price e' = l_price e \<and> l_price_history e' = l_price_history e"
    by (rule nc(3))
next
  have "filter (\<lambda>l. l_price l = Some 0)
          (filter (\<lambda>l. \<not> drop_price f l)
             (apply_filters (f\<lparr>f_price_min := None, f_price_max := None\<rparr>) ls)) =
        filter (\<lambda>l. l_price l = Some 0)
          (apply_filters (f\<lparr>f_price_min := None, f_price_max := None\<rparr>) ls)"
    unfolding filter_filter
    by (rule filter_cong [OF refl]) (auto simp: drop_price_iff)
  then show "filter (\<lambda>l. l_price l = Some 0) (apply_filters f ls) =
    filter (\<lambda>l. l_price l = Some 0)
     (apply_filters (f\<lparr>f_price_min := None, f_price_max := None\<rparr>) ls)"
    by (simp only: apply_filters_price_bounds [of f ls])
next
  assume z: "c_price c = Some 0"
  from zero_candidate_price_never_changes [OF z]
  show "snd (upsert_listing clk s c) \<noteq> Inr (Updated, True)"
    and "price_alerts (fst (upsert_listing clk s c)) = price_alerts s"
    by simp_all
qed

text \<open>A stored price of 0 meets the candidate price 43000; a listing priced 0 meets the
  bounds 40000 and 50000.\<close>

theorem zero_price_is_absent_witness:
  "c_source (tundra (Some ''SR5'') (Some 43000)) = Val ''cars.com'' \<and>
   c_listing_id (tundra (Some ''SR5'') (Some 43000)) = Val ''1'' \<and>
   select_existing (tundra_store (Some 0)) (Some ''cars.com'') (Some ''1'') =
     Some (tundra_row (Some 0)) \<and>
   l_price (tundra_row (Some 0)) = Some 0 \<and>
   snd (upsert_listing (utc_clock (at_time 10 28 11)) (tundra_store (Some 0))
          (tundra (Some ''SR5'') (Some 43000))) = Inr (Unchanged, False) \<and>
   price_alerts (fst (upsert_listing (utc_clock (at_time 10 28 11)) (tundra_store (Some 0))
          (tundra (Some ''SR5'') (Some 43000)))) = [] \<and>
   filter (\<lambda>l. l_price l = Some 0) (apply_filters price_window [truck 1 ''1'' (Some 0)]) =
     [truck 1 ''1'' (Some 0)]"
proof -
  let ?c = "tundra (Some ''SR5'') (Some 43000)"
  have h1: "c_source ?c = Val ''cars.com''" and h2: "c_listing_id ?c = Val ''1''"
    by (simp_all add: tundra_def)
  note h3 = tundra_selected [of "Some 0"]
  have h4: "l_price (tundra_row (Some 0)) = Some 0"
    and p: "price_alerts (tundra_store (Some 0)) = []"
    by (simp_all add: tundra_row_def tundra_store_def)
  have fits: "int64 (c_msrp ?c) \<and> int64 (c_mileage ?c)" by (simp add: tundra_def)
  have f0: "price_window\<lparr>f_price_min := None, f_price_max := None\<rparr> = FILTERS"
    by (simp add: price_window_def FILTERS_def)
  have z: "l_price (truck 1 ''1'' (Some 0)) = Some 0"
    by (simp add: truck_def tundra_row_def)
  note th = zero_price_is_absent [of ?c "''cars.com''" "''1''" "tundra_store (Some 0)"
      "tundra_row (Some 0)" "utc_clock (at_time 10 28 11)" price_window
      "[truck 1 ''1'' (Some 0)]"]
  from th have "filter (\<lambda>l. l_price l = Some 0)
        (apply_filters price_window [truck 1 ''1'' (Some 0)]) =
      filter (\<lambda>l. l_price l = Some 0) (apply_filters FILTERS [truck 1 ''1'' (Some 0)])"
    by (simp only: f0)
  also have "\<dots> = [truck 1 ''1'' (Some 0)]"
    by (simp only: apply_filters_FILTERS filter.simps z refl if_True)
  finally have fl: "filter (\<lambda>l. l_price l = Some 0)
        (apply_filters price_window [truck 1 ''1'' (Some 0)]) = [truck 1 ''1'' (Some 0)]" .
  from th h1 h2 h3 h4 have "snd (upsert_listing (utc_clock (at_time 10 28 11))
          (tundra_store (Some 0)) ?c) =
        (if int64 (c_msrp ?c) \<and> int64 (c_mileage ?c) then Inr (Unchanged, False)
         else Inl OverflowError) \<and>
      price_alerts (fst (upsert_listing (utc_clock (at_time 10 28 11))
          (tundra_store (Some 0)) ?c)) = price_alerts (tundra_store (Some 0))"
    by blast
  with fits have "snd (upsert_listing (utc_clock (at_time 10 28 11))
          (tundra_store (Some 0)) ?c) = Inr (Unchanged, False) \<and>
      price_alerts (fst (upsert_listing (utc_clock (at_time 10 28 11))
          (tundra_store (Some 0)) ?c)) = price_alerts (tundra_store (Some 0))"
    by simp
  with fl h1 h2 h3 h4 p show ?thesis by simp
qed

section \<open>Listing the table\<close>

lemma two_store_reached:
  "process_listings empty_store no_stats
     [(utc_clock (at_time 10 27 9), tundra (Some ''SR5'') (Some 45000)),
      (utc_clock (at_time 10 27 9), (tundra (Some ''SR5'') None)\<lparr>c_listing_id := Val ''2''\<rparr>)] =
   (two_store, no_stats\<lparr>st_inserted := 2\<rparr>, None)"
  by (simp add: tundra_store_reached int64_def count_action_def no_stats_def)
     (simp add: upsert_listing_def subscript_def select_existing_def tundra_def tundra_store_def
       tundra_row_def insert_listing_def next_rowid_def two_store_def truck_def utc_clock_def
       at_time_def isoformat_def pad2_def pad4_def digit_def Let_def count_action_def
       int64_def)

lemma where_matches_iff:
  "where_matches col p l = (\<forall>m. p = Some m \<and> m \<noteq> [] \<longrightarrow> lower (col l) = lower m)"
  by (cases p) (auto simp: where_matches_def)

lemma get_listings_sorted: "sorted (map l_price (get_listings cfg s mk md u))"
  by (simp add: get_listings_def Let_def apply_filters_filter sorted_filter)

lemma option_le_cases:
  "(x::int option) \<le> y \<Longrightarrow> x = None \<or> (\<exists>p q. x = Some p \<and> y = Some q \<and> p \<le> q)"
  by (cases x; cases y) simp_all

text \<open>
  Claim C5, amended. For every database and every optional restriction to a make and a
  model (compared without regard to ASCII case), \<open>get_listings\<close> without the
  configured filters returns the matching rows, and with them the rows among these that
  pass the filters; the result is in ascending order of price with the rows whose price
  is null placed first: of two rows of the result, the earlier has a null price or both
  have a price and the earlier price is at most the later.
\<close>

theorem get_listings_nulls_first:
  "(\<forall>i j. i < j \<and> j < length (get_listings cfg s mk md u) \<longrightarrow>
      l_price (get_listings cfg s mk md u ! i) = None \<or>
      (\<exists>p q. l_price (get_listings cfg s mk md u ! i) = Some p \<and>
             l_price (get_listings cfg s mk md u ! j) = Some q \<and> p \<le> q)) \<and>
   mset (get_listings cfg s mk md False) =
     mset (filter (\<lambda>l. (\<forall>m. mk = Some m \<and> m \<noteq> [] \<longrightarrow> lower (l_make l) = lower m) \<and>
                       (\<forall>m. md = Some m \<and> m \<noteq> [] \<longrightarrow> lower (l_model l) = lower m))
             (listings s)) \<and>
   get_listings cfg s mk md True = apply_filters cfg (get_listings cfg s mk md False)"
proof (intro conjI allI impI)
  fix i j
  let ?r = "get_listings cfg s mk md u"
  assume ij: "i < j \<and> j < length ?r"
  then have "map l_price ?r ! i \<le> map l_price ?r ! j"
    using get_listings_sorted [of cfg s mk md u]
    by (simp add: sorted_iff_nth_mono)
  with ij have "l_price (?r ! i) \<le> l_price (?r ! j)" by simp
  then show "l_price (?r ! i) = None \<or>
      (\<exists>p q. l_price (?r ! i) = Some p \<and> l_price (?r ! j) = Some q \<and> p \<le> q)"
    by (rule option_le_cases)
next
  show "mset (get_listings cfg s mk md False) =
     mset (filter (\<lambda>l. (\<forall>m. mk = Some m \<and> m \<noteq> [] \<longrightarrow> lower (l_make l) = lower m) \<and>
                       (\<forall>m. md = Some m \<and> m \<noteq> [] \<longrightarrow> lower (l_model l) = lower m))
             (listings s))"
    by (simp add: get_listings_def where_matches_iff)
next
  show "get_listings cfg s mk md True = apply_filters cfg (get_listings cfg s mk md False)"
    by (simp add: get_listings_def)
qed

lemma get_listings_two_store:
  "get_listings FILTERS two_store None None True = [truck 2 ''2'' None, truck 1 ''1'' (Some 45000)]"
  by (simp add: get_listings_def apply_filters_FILTERS two_store_def where_matches_def
      truck_def tundra_row_def)

text \<open>In \<open>two_store\<close> the unpriced listing is listed before the one priced 45000.\<close>

theorem get_listings_nulls_first_witness:
  "(0::nat) < 1 \<and> 1 < length (get_listings FILTERS two_store None None True) \<and>
   l_price (get_listings FILTERS two_store None None True ! 0) = None \<and>
   l_price (get_listings FILTERS two_store None None True ! 1) = Some 45000"
proof -
  let ?r = "get_listings FILTERS two_store None None True"
  have len: "(0::nat) < 1 \<and> 1 < length ?r" by (simp add: get_listings_two_store)
  have p1: "l_price (?r ! 1) = Some 45000"
    by (simp add: get_listings_two_store truck_def tundra_row_def)
  from get_listings_nulls_first [of FILTERS two_store None None True] len
  have d: "l_price (?r ! 0) = None \<or>
      (\<exists>p q. l_price (?r ! 0) = Some p \<and> l_price (?r ! 1) = Some q \<and> p \<le> q)"
    by blast
  have "\<not> (\<exists>p q. l_price (?r ! 0) = Some p \<and> l_price (?r ! 1) = Some q \<and> p \<le> q)"
    by (simp add: get_listings_two_store truck_def tundra_row_def)
  with d have "l_price (?r ! 0) = None" by blast
  with len p1 show ?thesis by simp
qed

text \<open>The row with the null price is the second row of the table and the first of the
  result: null prices are not placed last.\<close>

theorem get_listings_nulls_last_counterexample:
  "map l_price (listings two_store) = [Some 45000, None] \<and>
   map l_price (get_listings FILTERS two_store None None True) = [None, Some 45000]"
  by (simp add: get_listings_two_store) (simp add: two_store_def truck_def tundra_row_def)

section \<open>Merging the same observation again\<close>

lemma fold_max_ge: "(a::nat) \<le> fold max xs a \<and> (\<forall>x\<in>set xs. x \<le> fold max xs a)"
proof (induction xs arbitrary: a)
  case Nil
  show ?case by simp
next
  case (Cons y ys)
  from Cons.IH [of "max y a"] show ?case by auto
qed

lemma next_rowid_fresh: "l \<in> set ls \<Longrightarrow> l_id l \<noteq> next_rowid seq (map l_id ls)"
  using fold_max_ge [of seq "map l_id ls"] by (fastforce simp: next_rowid_def)

lemma find_append:
  "find P (xs @ ys) = (case find P xs of None \<Rightarrow> find P ys | Some x \<Rightarrow> Some x)"
  by (induction xs) simp_all

lemma upsert_listing_new:
  assumes "c_source c = Val a" and "c_listing_id c = Val b" and "c_make c = Val mk"
    and "c_model c = Val md" and "c_year c = Val y"
    and "select_existing s (Some a) (Some b) = None"
    and "int64 (Some y) \<and> int64 (c_price c) \<and> int64 (c_msrp c) \<and> int64 (c_mileage c)"
  shows "upsert_listing clk s c =
     (s\<lparr>listings := listings s @ [new_row s c a b mk md y (isoformat (py_now clk))],
        listings_seq := next_rowid (listings_seq s) (map l_id (listings s))\<rparr>,
      Inr (Inserted, False))"
  using assms
  by (simp add: upsert_listing_def subscript_def Let_def insert_listing_def new_row_def)

lemma touch_after_insert:
  assumes "select_existing s (Some a) (Some b) = None"
  shows "touch a b t
           (s\<lparr>listings := listings s @ [new_row s c a b mk md y now], listings_seq := n\<rparr>) =
         s\<lparr>listings := listings s @ [(new_row s c a b mk md y now)\<lparr>l_last_seen := t\<rparr>],
           listings_seq := n\<rparr>"
proof -
  from assms have "\<forall>l\<in>set (listings s). \<not> (l_source l = a \<and> l_listing_id l = b)"
    by (simp add: select_existing_def find_None_iff)
  then have "map (\<lambda>l. if l_source l = a \<and> l_listing_id l = b then l\<lparr>l_last_seen := t\<rparr> else l)
               (listings s) = listings s"
    by (intro map_idI) auto
  then show ?thesis by (simp add: touch_def new_row_def)
qed

lemma upsert_listing_again:
  assumes "c_source c = Val a" and "c_listing_id c = Val b"
    and "select_existing s (Some a) (Some b) = None"
    and fits: "int64 (c_msrp c) \<and> int64 (c_mileage c)"
  shows "upsert_listing clk'
           (s\<lparr>listings := listings s @ [(new_row s c a b mk md y now)\<lparr>l_last_seen := t\<rparr>],
              listings_seq := n\<rparr>) c =
         (s\<lparr>listings := listings s @
               [(new_row s c a b mk md y now)\<lparr>l_last_seen := isoformat (py_now clk')\<rparr>],
            listings_seq := n\<rparr>,
          Inr (Unchanged, False))"
proof -
  let ?row = "(new_row s c a b mk md y now)\<lparr>l_last_seen := t\<rparr>"
  let ?s1 = "s\<lparr>listings := listings s @ [?row], listings_seq := n\<rparr>"
  from assms(3) have "find (\<lambda>l. l_source l = a \<and> l_listing_id l = b) (listings s) = None"
    by (simp add: select_existing_def)
  then have sel: "select_existing ?s1 (Some a) (Some b) = Some ?row"
    by (simp add: select_existing_def find_append new_row_def)
  have g: "\<not> (truthy (l_price ?row) \<and> truthy (c_price c) \<and> l_price ?row \<noteq> c_price c)"
    by (simp add: new_row_def)
  have u: "upsert_listing clk' ?s1 c =
      (update_where_id (l_id ?row) (update_common c (isoformat (py_now clk'))) ?s1,
       Inr (Unchanged, False))"
    by (simp only: upsert_listing_existing [OF assms(1) assms(2) sel] if_not_P [OF g]
        if_P [OF fits])
  have others: "map (\<lambda>l. if l_id l = l_id ?row then update_common c (isoformat (py_now clk')) l
                         else l) (listings s) = listings s"
    by (rule map_idI) (simp add: new_row_def next_rowid_fresh)
  have row: "update_common c (isoformat (py_now clk')) ?row =
      (new_row s c a b mk md y now)\<lparr>l_last_seen := isoformat (py_now clk')\<rparr>"
    by (simp add: update_common_def new_row_def coalesce_def split: option.splits)
  have "update_where_id (l_id ?row) (update_common c (isoformat (py_now clk'))) ?s1 =
      s\<lparr>listings := listings s @
               [(new_row s c a b mk md y now)\<lparr>l_last_seen := isoformat (py_now clk')\<rparr>],
            listings_seq := n\<rparr>"
    using others row by (simp add: update_where_id_def)
  with u show ?thesis by simp
qed

text \<open>
  Claim C3, amended. For every candidate that has its five required entries, whose
  year, price, msrp and mileage are within signed 64 bits, and whose identity is not in
  the table, the merge returns \<open>('inserted', False)\<close>, and every later merge of the
  same candidate returns \<open>('unchanged', False)\<close> and never raises; the database after
  each later merge is the database after the first merge except for \<open>last_seen\<close> of
  the listing, which is the time of the latest merge.
\<close>

theorem merge_idempotent_up_to_last_seen:
  assumes "c_source c = Val a" and "c_listing_id c = Val b" and "c_make c = Val mk"
    and "c_model c = Val md" and "c_year c = Val y"
    and "select_existing s (Some a) (Some b) = None"
    and "int64 (Some y) \<and> int64 (c_price c) \<and> int64 (c_msrp c) \<and> int64 (c_mileage c)"
  shows "snd (upsert_listing clk s c) = Inr (Inserted, False) \<and>
     touch a b (isoformat (py_now clk)) (fst (upsert_listing clk s c)) =
       fst (upsert_listing clk s c) \<and>
     (\<forall>t clk'. upsert_listing clk' (touch a b t (fst (upsert_listing clk s c))) c =
        (touch a b (isoformat (py_now clk')) (fst (upsert_listing clk s c)),
         Inr (Unchanged, False)))"
proof -
  note ins = upsert_listing_new [OF assms, of clk]
  note tch = touch_after_insert [OF assms(6)]
  have "touch a b (isoformat (py_now clk)) (fst (upsert_listing clk s c)) =
       fst (upsert_listing clk s c)"
    by (simp add: ins tch) (simp add: new_row_def)
  moreover have "upsert_listing clk' (touch a b t (fst (upsert_listing clk s c))) c =
        (touch a b (isoformat (py_now clk')) (fst (upsert_listing clk s c)),
         Inr (Unchanged, False))" for t clk'
    using assms(7)
    by (simp add: ins tch upsert_listing_again [OF assms(1) assms(2) assms(6)])
  ultimately show ?thesis by (simp add: ins)
qed

lemma tundra_store_again:
  "upsert_listing (utc_clock (at_time 10 28 11)) (tundra_store p) (tundra (Some ''SR5'') p) =
     ((tundra_store p)\<lparr>listings := [later_row p]\<rparr>, Inr (Unchanged, False))"
proof -
  have h1: "c_source (tundra (Some ''SR5'') p) = Val ''cars.com''"
    and h2: "c_listing_id (tundra (Some ''SR5'') p) = Val ''1''"
    by (simp_all add: tundra_def)
  show ?thesis
    unfolding upsert_listing_existing [OF h1 h2 tundra_selected]
    by (simp add: tundra_row_def tundra_def tundra_store_def update_where_id_def
        update_common_def coalesce_def utc_clock_def at_time_def isoformat_def pad2_def pad4_def
        digit_def later_row_def)
qed

text \<open>The Tundra merged into the empty database on 27 October and again on 28 October.\<close>

theorem merge_idempotent_up_to_last_seen_witness:
  "c_source (tundra (Some ''SR5'') (Some 45000)) = Val ''cars.com'' \<and>
   c_listing_id (tundra (Some ''SR5'') (Some 45000)) = Val ''1'' \<and>
   c_make (tundra (Some ''SR5'') (Some 45000)) = Val ''Toyota'' \<and>
   c_model (tundra (Some ''SR5'') (Some 45000)) = Val ''Tundra'' \<and>
   c_year (tundra (Some ''SR5'') (Some 45000)) = Val 2025 \<and>
   select_existing empty_store (Some ''cars.com'') (Some ''1'') = None \<and>
   int64 (Some 2025) \<and> int64 (c_price (tundra (Some ''SR5'') (Some 45000))) \<and>
   int64 (c_msrp (tundra (Some ''SR5'') (Some 45000))) \<and>
   int64 (c_mileage (tundra (Some ''SR5'') (Some 45000))) \<and>
   snd (upsert_listing (utc_clock (at_time 10 27 9)) empty_store
          (tundra (Some ''SR5'') (Some 45000))) = Inr (Inserted, False) \<and>
   upsert_listing (utc_clock (at_time 10 28 11)) (tundra_store (Some 45000))
     (tundra (Some ''SR5'') (Some 45000)) =
   (touch ''cars.com'' ''1'' ''2026-10-28T11:00:00'' (tundra_store (Some 45000)),
    Inr (Unchanged, False))"
proof -
  let ?c = "tundra (Some ''SR5'') (Some 45000)"
  have h: "c_source ?c = Val ''cars.com''" "c_listing_id ?c = Val ''1''"
    "c_make ?c = Val ''Toyota''" "c_model ?c = Val ''Tundra''" "c_year ?c = Val 2025"
    by (simp_all add: tundra_def)
  have h6: "select_existing empty_store (Some ''cars.com'') (Some ''1'') = None"
    by (simp add: select_existing_def empty_store_def)
  have h7: "int64 (Some 2025) \<and> int64 (c_price ?c) \<and> int64 (c_msrp ?c) \<and>
      int64 (c_mileage ?c)"
    by (simp add: tundra_def int64_def)
  note th = merge_idempotent_up_to_last_seen [OF h h6 h7, of "utc_clock (at_time 10 27 9)"]
  have s1: "fst (upsert_listing (utc_clock (at_time 10 27 9)) empty_store ?c) =
      tundra_store (Some 45000)"
    by (simp add: tundra_store_reached int64_def)
  have n: "isoformat (py_now (utc_clock (at_time 10 28 11))) = ''2026-10-28T11:00:00''"
    by (simp add: utc_clock_def at_time_def isoformat_def pad2_def pad4_def digit_def)
  from th have "touch ''cars.com'' ''1'' (isoformat (py_now (utc_clock (at_time 10 27 9))))
        (tundra_store (Some 45000)) = tundra_store (Some 45000)"
    and "upsert_listing (utc_clock (at_time 10 28 11))
       (touch ''cars.com'' ''1'' (isoformat (py_now (utc_clock (at_time 10 27 9))))
          (tundra_store (Some 45000))) ?c =
     (touch ''cars.com'' ''1'' (isoformat (py_now (utc_clock (at_time 10 28 11))))
        (tundra_store (Some 45000)), Inr (Unchanged, False))"
    unfolding s1 by blast+
  then have "upsert_listing (utc_clock (at_time 10 28 11)) (tundra_store (Some 45000)) ?c =
     (touch ''cars.com'' ''1'' ''2026-10-28T11:00:00'' (tundra_store (Some 45000)),
      Inr (Unchanged, False))"
    by (simp only: n)
  moreover from th have "snd (upsert_listing (utc_clock (at_time 10 27 9)) empty_store ?c) =
      Inr (Inserted, False)" by blast
  ultimately show ?thesis using h h6 h7 by simp
qed

text \<open>After the second merge \<open>last_seen\<close> is the later time: the database is not the
  one after the first merge.\<close>

theorem merge_idempotent_counterexample:
  "upsert_listing (utc_clock (at_time 10 27 9)) empty_store (tundra (Some ''SR5'') (Some 45000)) =
     (tundra_store (Some 45000), Inr (Inserted, False)) \<and>
   upsert_listing (utc_clock (at_time 10 28 11)) (tundra_store (Some 45000))
     (tundra (Some ''SR5'') (Some 45000)) =
     ((tundra_store (Some 45000))\<lparr>listings := [later_row (Some 45000)]\<rparr>, Inr (Unchanged, False)) \<and>
   (tundra_store (Some 45000))\<lparr>listings := [later_row (Some 45000)]\<rparr> \<noteq> tundra_store (Some 45000)"
  by (simp add: tundra_store_reached tundra_store_again int64_def)
     (simp add: tundra_store_def later_row_def tundra_row_def)

section \<open>Candidates that make upsert_listing raise\<close>




lemma select_existing_None [simp]:
  "select_existing s None lid = None" "select_existing s src None = None"
  by (simp_all add: select_existing_def split: option.splits)








section \<open>The minimum discount\<close>

text \<open>
  Claim C8 says that with \<open>min_discount_percent\<close> set a listing without an msrp is
  excluded from the result. With the threshold 5, a listing priced 45000 whose msrp is
  null is returned: the branch \<open>elif not msrp\<close>, commented as skipping the listing,
  is \<open>pass\<close>.
\<close>

theorem no_msrp_passes_min_discount:
  "f_min_discount_percent min_discount_5 = Some 5 \<and>
   l_msrp (truck 1 ''1'' (Some 45000)) = None \<and>
   apply_filters min_discount_5 [truck 1 ''1'' (Some 45000)] = [truck 1 ''1'' (Some 45000)]"
  by (simp add: passes_def drop_defs truthy_def truthy_num_def min_discount_5_def
      FILTERS_def truck_def tundra_row_def)

section \<open>Price drops of the last days\<close>

text \<open>The query of \<open>get_price_drops\<close> returns the joins of the alerts whose
  \<open>change_date\<close> is, as text, at least the cutoff text with the current rows of their
  listings, the largest \<open>change_date\<close> first.\<close>

lemma select_price_drops_set:
  "set (select_price_drops s cutoff) =
     {join_row a l | a l. a \<in> set (price_alerts s) \<and> cutoff \<le> pa_change_date a \<and>
        l \<in> set (listings s) \<and> l_id l = pa_listing_id a}"
  by (auto simp: select_price_drops_def)

lemma select_price_drops_descending:
  "sorted (rev (map d_change_date (select_price_drops s cutoff)))"
  by (simp add: select_price_drops_def rev_map)

lemma drop_store_reached:
  "upsert_listing (utc_clock (at_time 10 28 11)) (tundra_store (Some 45000))
     (tundra (Some ''SR5'') (Some 43000)) = (drop_store, Inr (Updated, True))"
proof -
  have h1: "c_source (tundra (Some ''SR5'') (Some 43000)) = Val ''cars.com''"
    and h2: "c_listing_id (tundra (Some ''SR5'') (Some 43000)) = Val ''1''"
    by (simp_all add: tundra_def)
  show ?thesis
    unfolding upsert_listing_existing [OF h1 h2 tundra_selected]
    by (simp add: tundra_row_def tundra_def tundra_store_def update_where_id_def
        update_common_def coalesce_def utc_clock_def at_time_def isoformat_def pad2_def pad4_def
        digit_def later_row_def drop_store_def insert_alert_def next_rowid_def truthy_def
        sqlite_timestamp_def int64_def)
qed

text \<open>
  Claim C7 says that the query returns exactly the price alerts at or after the cutoff,
  so that every alert of the last seven days is in a seven-day window. On a host whose
  local time is UTC, the alert created on 28 October 2026 at 11:00 is stored with the
  \<open>change_date\<close> \<open>2026-10-28 11:00:00\<close> that SQLite fills in. On 4 November at 10:00
  the cutoff of \<open>get_price_drops(7)\<close> is 28 October at 10:00, an hour before the alert,
  and is passed as the text \<open>2026-10-28T10:00:00\<close>. The two texts are compared byte by
  byte and differ first where the one has a space and the other a \<open>T\<close>, so the alert
  is below the cutoff and the result is empty.
\<close>

theorem price_drop_same_day_missed:
  "upsert_listing (utc_clock (at_time 10 28 11)) (tundra_store (Some 45000))
     (tundra (Some ''SR5'') (Some 43000)) = (drop_store, Inr (Updated, True)) \<and>
   map pa_change_date (price_alerts drop_store) = [''2026-10-28 11:00:00''] \<and>
   minus_days (at_time 11 4 10) 7 = Inr (at_time 10 28 10) \<and>
   isoformat (at_time 10 28 10) = ''2026-10-28T10:00:00'' \<and>
   get_price_drops (at_time 11 4 10) drop_store 7 = Inr []"
proof -
  have m: "minus_days (at_time 11 4 10) 7 = Inr (at_time 10 28 10)"
    by (simp add: minus_days_def at_time_def ymd2ord_def days_before_year_def
        days_before_month_def days_in_month_def is_leap_def ord2ymd_def Let_def upt_rec)
  have "select_price_drops drop_store (isoformat (at_time 10 28 10)) = []"
    by (simp add: select_price_drops_def drop_store_def at_time_def isoformat_def pad2_def
        pad4_def digit_def)
  moreover have "map pa_change_date (price_alerts drop_store) = [''2026-10-28 11:00:00'']"
    by (simp add: drop_store_def)
  moreover have "isoformat (at_time 10 28 10) = ''2026-10-28T10:00:00''"
    by (simp add: at_time_def isoformat_def pad2_def pad4_def digit_def)
  ultimately show ?thesis using m by (simp add: get_price_drops_def drop_store_reached)
qed

end
